theory Spec2Isabelle
  imports Complex_Main "HOL-Library.Word"
begin

unbundle bit_operations_syntax

section \<open>MotionBlinds BLE device: the connection and command engine\<close>

text \<open>
  A shallow embedding of \<^verbatim>\<open>src/motionblinds_ble/device.py\<close>. Python integers are
  \<^typ>\<open>int\<close>, bytes are \<^typ>\<open>8 word\<close>, exceptions are values of the type \<open>error\<close>,
  and the fields of \<^verbatim>\<open>MotionDevice\<close> are a record that every operation takes and
  returns. The collaborators of the device (the event loop with its tasks and timers, the
  BLE transport, the registered callbacks) are seen through the calls the device makes to
  them, which are appended to a log.
\<close>

subsection \<open>Python values\<close>

text \<open>
  The values a Python expression of this module can yield where the code relies on
  truthiness rather than on a \<^verbatim>\<open>bool\<close>: \<^verbatim>\<open>x or y\<close> yields \<^verbatim>\<open>x\<close> when \<^verbatim>\<open>x\<close> is truthy
  and \<^verbatim>\<open>y\<close> otherwise, and a function that runs off its end yields \<^verbatim>\<open>None\<close>.
\<close>

datatype pyval = PyNone | PyBool bool | PyInt int

fun truthy :: "pyval \<Rightarrow> bool" where
  "truthy PyNone = False"
| "truthy (PyBool b) = b"
| "truthy (PyInt i) = (i \<noteq> 0)"

definition py_or :: "pyval \<Rightarrow> pyval \<Rightarrow> pyval" where
  "py_or x y = (if truthy x then x else y)"

subsection \<open>MotionPositionInfo\<close>

record MotionPositionInfo =
  UP :: bool
  DOWN :: bool
  FAVORITE :: pyval

text \<open>
  \<^verbatim>\<open>MotionPositionInfo.__init__(end_positions_byte, favorite_bytes)\<close>:
  \<^verbatim>\<open>UP = bool(end_positions_byte & 0x08)\<close>, \<^verbatim>\<open>DOWN = bool(end_positions_byte & 0x04)\<close>,
  \<^verbatim>\<open>FAVORITE = (favorite_bytes & 0xFF00) != 0x00 or (favorite_bytes & 0x00FF)\<close>.
\<close>

definition MotionPositionInfo_init :: "int \<Rightarrow> int \<Rightarrow> MotionPositionInfo" where
  "MotionPositionInfo_init end_positions_byte favorite_bytes =
     \<lparr> UP = (end_positions_byte AND 0x08 \<noteq> 0),
       DOWN = (end_positions_byte AND 0x04 \<noteq> 0),
       FAVORITE = py_or (PyBool (favorite_bytes AND 0xFF00 \<noteq> 0x00))
                        (PyInt (favorite_bytes AND 0x00FF)) \<rparr>"

subsection \<open>Errors, constants and collaborators\<close>

text \<open>The exceptions that the module raises or lets through.\<close>

datatype error =
    NoEndPositionsException
  | NoFavoritePositionException
  | BleakOutOfConnectionSlotsError
  | BleakNotFoundError
  | BleakError
  | CancelledError
  | AssertionError
  | TypeError
  | ValueError
  | IndexError

datatype MotionConnectionType = DISCONNECTED | CONNECTING | CONNECTED | DISCONNECTING

text \<open>
  The module \<^verbatim>\<open>const.py\<close> is not part of the sources at hand, so the constants that
  \<^verbatim>\<open>device.py\<close> imports from it are parameters: the settings, the \<^verbatim>\<open>.value\<close> strings of
  the notification and command enumerations, and the values that \<^verbatim>\<open>MotionSpeedLevel\<close>
  accepts.
\<close>

record const =
  SETTING_DISCONNECT_TIME :: int
  SETTING_MAX_COMMAND_ATTEMPTS :: int
  NOTIFICATION_PERCENT :: string
  NOTIFICATION_RUNNING :: string
  NOTIFICATION_STATUS :: string
  COMMAND_PERCENT :: string
  COMMAND_ANGLE :: string
  COMMAND_OPEN :: string
  COMMAND_CLOSE :: string
  COMMAND_STOP :: string
  COMMAND_FAVORITE :: string
  SPEED_LEVELS :: "int list"

text \<open>
  \<^verbatim>\<open>MotionCrypt\<close> (module \<^verbatim>\<open>crypt.py\<close>, also absent) is a parameter as well: two functions
  on hex strings and the time stamp that \<^verbatim>\<open>get_time()\<close> yields at the moment of the call.
\<close>

record MotionCrypt =
  encrypt :: "string \<Rightarrow> string"
  decrypt :: "string \<Rightarrow> string"
  get_time :: string

text \<open>
  A \<^verbatim>\<open>BleakClient\<close> is seen through its \<^verbatim>\<open>is_connected\<close> property. A disconnect timer
  is either the cancel function that the host's \<^verbatim>\<open>call_later\<close> returned (a callable) or
  the \<^verbatim>\<open>TimerHandle\<close> of the event loop. A task of the event loop is pending until it
  returns, raises or is cancelled.
\<close>

record BleakClient =
  is_connected :: bool

datatype TimerHandle = HACancel nat | LoopTimer nat

type_synonym Task = nat

datatype task_state =
    Pending
  | Returned bool
  | Raised error
  | Cancelled

text \<open>The calls that the device makes to its collaborators, in the order it makes them.\<close>

datatype event =
    ConnectionCallback MotionConnectionType
  | PositionCallback int int MotionPositionInfo
  | StatusCallback int int int "int option" MotionPositionInfo
  | TimerCancel TimerHandle
  | TimerArm TimerHandle int
  | TaskCreate Task bool
  | TaskCancel Task
  | WriteGattChar "8 word list"
  | ClientDisconnect

subsection \<open>The device\<close>

text \<open>
  The fields of \<^verbatim>\<open>MotionDevice\<close> that the modelled operations read or write. A callback
  or a host function is recorded by whether it is registered. The record \<open>world\<close> adds
  what lies outside the object: the state of the event loop's tasks, the next unused
  handle number, and the log of calls made.
\<close>

record MotionDevice =
  end_position_info :: "MotionPositionInfo option"
  current_bleak_client :: "BleakClient option"
  connection_type :: MotionConnectionType
  disconnect_time :: "int option"
  disconnect_timer :: "TimerHandle option"
  ha_create_task :: bool
  ha_call_later :: bool
  position_callback :: bool
  running_callback :: bool
  connection_callback :: bool
  status_callback :: bool
  connection_task :: "Task option"
  last_connection_caller_time :: "int option"

record world = MotionDevice +
  tasks :: "Task \<Rightarrow> task_state"
  next_handle :: nat
  log :: "event list"

text \<open>
  A device as \<^verbatim>\<open>__init__\<close> leaves it: every field has its class default, nothing is
  registered, and nothing has been asked of the collaborators yet.
\<close>

definition MotionDevice_init :: world where
  "MotionDevice_init =
     \<lparr> end_position_info = None, current_bleak_client = None,
       connection_type = DISCONNECTED, disconnect_time = None, disconnect_timer = None,
       ha_create_task = False, ha_call_later = False, position_callback = False,
       running_callback = False, connection_callback = False, status_callback = False,
       connection_task = None, last_connection_caller_time = None,
       tasks = (\<lambda>_. Pending), next_handle = 0, log = [] \<rparr>"

text \<open>
  Values for the absent constants and for \<^verbatim>\<open>MotionCrypt\<close>, used where a statement is
  evaluated on a concrete input; the general statements hold for every value of them.
\<close>

definition example_const :: const where
  "example_const =
     \<lparr> SETTING_DISCONNECT_TIME = 15, SETTING_MAX_COMMAND_ATTEMPTS = 5,
       NOTIFICATION_PERCENT = ''07040402'', NOTIFICATION_RUNNING = ''070404021e'',
       NOTIFICATION_STATUS = ''12040f02'',
       COMMAND_PERCENT = ''05020440'', COMMAND_ANGLE = ''05020420'',
       COMMAND_OPEN = ''03020301'', COMMAND_CLOSE = ''03020302'',
       COMMAND_STOP = ''03020303'', COMMAND_FAVORITE = ''03020306'',
       SPEED_LEVELS = [1, 2, 3] \<rparr>"

definition example_crypt :: MotionCrypt where
  "example_crypt = \<lparr> encrypt = (\<lambda>m. m), decrypt = (\<lambda>m. m), get_time = ''0102030405060708'' \<rparr>"

definition emit :: "event \<Rightarrow> world \<Rightarrow> world" where
  "emit e s = s\<lparr>log := log s @ [e]\<rparr>"

text \<open>\<^verbatim>\<open>_set_connection\<close>: call the connection callback if there is one, then store the type.\<close>

definition set_connection :: "MotionConnectionType \<Rightarrow> world \<Rightarrow> world" where
  "set_connection t s =
     (let s1 = (if connection_callback s then emit (ConnectionCallback t) s else s)
      in s1\<lparr>connection_type := t\<rparr>)"

subsection \<open>The disconnect timer\<close>

text \<open>
  \<^verbatim>\<open>_cancel_disconnect_timer\<close>: a timer that is set is cancelled, by calling it when it
  is the host's cancel function and by its \<^verbatim>\<open>cancel()\<close> otherwise. The field keeps the
  handle.
\<close>

definition cancel_disconnect_timer :: "world \<Rightarrow> world" where
  "cancel_disconnect_timer s =
     (case disconnect_timer s of
        None \<Rightarrow> s
      | Some (HACancel n) \<Rightarrow> emit (TimerCancel (HACancel n)) s
      | Some (LoopTimer n) \<Rightarrow> emit (TimerCancel (LoopTimer n)) s)"

text \<open>
  \<^verbatim>\<open>refresh_disconnect_timer(timeout=None, force=False)\<close>. The argument \<open>now_ms\<close> is the
  value of \<^verbatim>\<open>time_ns() // 1e6\<close>, a whole number of milliseconds, so that
  \<^verbatim>\<open>new_disconnect_time = time_ns() // 1e6 + timeout * 1e3\<close> is \<open>now_ms + timeout * 1000\<close>
  (the floats of the source hold whole numbers far below \<open>2 ^ 53\<close>, on which their sum
  and comparison are exact). Python evaluates
  \<^verbatim>\<open>self._disconnect_time > new_disconnect_time\<close> only when \<^verbatim>\<open>force\<close> is false and a timer
  is set, and the comparison raises \<^verbatim>\<open>TypeError\<close> when the time is still \<^verbatim>\<open>None\<close>.
\<close>

definition timeout_or_default :: "const \<Rightarrow> int option \<Rightarrow> int" where
  "timeout_or_default c timeout =
     (case timeout of None \<Rightarrow> SETTING_DISCONNECT_TIME c | Some t \<Rightarrow> t)"

definition new_timer :: "world \<Rightarrow> TimerHandle" where
  "new_timer s =
     (if ha_call_later s then HACancel (next_handle s) else LoopTimer (next_handle s))"

definition arm_disconnect_timer :: "int \<Rightarrow> int \<Rightarrow> world \<Rightarrow> world" where
  "arm_disconnect_timer timeout new_disconnect_time s =
     (let s1 = cancel_disconnect_timer s;
          s2 = s1\<lparr>disconnect_time := Some new_disconnect_time\<rparr>;
          h = new_timer s2;
          s3 = emit (TimerArm h timeout) s2
      in s3\<lparr>disconnect_timer := Some h, next_handle := Suc (next_handle s3)\<rparr>)"

definition refresh_disconnect_timer ::
  "const \<Rightarrow> int \<Rightarrow> int option \<Rightarrow> bool \<Rightarrow> world \<Rightarrow> error + world" where
  "refresh_disconnect_timer c now_ms timeout_arg force s =
     (let timeout = timeout_or_default c timeout_arg;
          new_disconnect_time = now_ms + timeout * 1000
      in if \<not> force \<and> disconnect_timer s \<noteq> None then
           (case disconnect_time s of
              None \<Rightarrow> Inl TypeError
            | Some d \<Rightarrow>
                if d > new_disconnect_time then Inr s
                else Inr (arm_disconnect_timer timeout new_disconnect_time s))
         else Inr (arm_disconnect_timer timeout new_disconnect_time s))"

subsection \<open>Hex strings and bytes\<close>

text \<open>
  \<^verbatim>\<open>bytearray.hex()\<close> writes two lower-case digits per byte. \<^verbatim>\<open>bytearray.fromhex\<close> skips
  ASCII whitespace before a byte, then needs two hex digits (of either case), and raises
  \<^verbatim>\<open>ValueError\<close> otherwise. Indexing a byte string beyond its end raises
  \<^verbatim>\<open>IndexError\<close>; within it, a byte is an integer from 0 to 255.
\<close>

definition hex_char :: "nat \<Rightarrow> char" where
  "hex_char n = ''0123456789abcdef'' ! (n mod 16)"

definition hex_digit :: "char \<Rightarrow> nat option" where
  "hex_digit ch =
     (let n = (of_char ch :: nat)
      in if 48 \<le> n \<and> n \<le> 57 then Some (n - 48)
         else if 97 \<le> n \<and> n \<le> 102 then Some (n - 87)
         else if 65 \<le> n \<and> n \<le> 70 then Some (n - 55)
         else None)"

definition is_space :: "char \<Rightarrow> bool" where
  "is_space ch = (of_char ch \<in> {9, 10, 11, 12, 13, 32 :: nat})"

definition bytes_hex :: "8 word list \<Rightarrow> string" where
  "bytes_hex bs = concat (map (\<lambda>b. [hex_char (unat b div 16), hex_char (unat b mod 16)]) bs)"

fun fromhex :: "string \<Rightarrow> error + 8 word list" where
  "fromhex [] = Inr []"
| "fromhex [ch] = (if is_space ch then Inr [] else Inl ValueError)"
| "fromhex (ch # d # ds) =
     (if is_space ch then fromhex (d # ds)
      else (case (hex_digit ch, hex_digit d) of
              (Some h, Some l) \<Rightarrow>
                (case fromhex ds of
                   Inl e \<Rightarrow> Inl e
                 | Inr bs \<Rightarrow> Inr (of_nat (16 * h + l) # bs))
            | _ \<Rightarrow> Inl ValueError))"

definition byte_at :: "8 word list \<Rightarrow> nat \<Rightarrow> error + int" where
  "byte_at bs i = (if i < length bs then Inr (uint (bs ! i)) else Inl IndexError)"

definition startswith :: "string \<Rightarrow> string \<Rightarrow> bool" where
  "startswith s p = (take (length p) s = p)"

text \<open>Sequencing of steps that may raise: the first exception ends the computation.\<close>

definition bind_err :: "error + 'a \<Rightarrow> ('a \<Rightarrow> error + 'b) \<Rightarrow> error + 'b" where
  "bind_err m f = (case m of Inl e \<Rightarrow> Inl e | Inr x \<Rightarrow> f x)"

subsection \<open>The notification decoder\<close>

text \<open>
  Python's \<^verbatim>\<open>round\<close> of a number with one argument: the nearest integer, and the even
  one of the two when the number lies half way between them.
\<close>

definition py_round :: "rat \<Rightarrow> int" where
  "py_round x =
     (let f = \<lfloor>x\<rfloor>; d = x - of_int f
      in if d < 1 / 2 then f
         else if 1 / 2 < d then f + 1
         else if even f then f else f + 1)"

text \<open>
  \<^verbatim>\<open>round(100 * angle / 180)\<close>. The quotient is taken exactly here; Python takes it in
  double precision, whose error is far smaller than the distance (at least 1/18) that
  the exact quotient keeps from every point half way between two integers.
\<close>

definition angle_percentage :: "int \<Rightarrow> int" where
  "angle_percentage angle = py_round (100 * of_int angle / 180)"

text \<open>
  \<^verbatim>\<open>int.from_bytes([hi, lo])\<close>, whose byte order defaults to big-endian (from Python 3.11
  on, where the argument may be left out).
\<close>

definition int_from_bytes2 :: "int \<Rightarrow> int \<Rightarrow> int" where
  "int_from_bytes2 hi lo = hi * 256 + lo"

text \<open>\<^verbatim>\<open>MotionSpeedLevel(b)\<close> raises \<^verbatim>\<open>ValueError\<close>, caught as \<^verbatim>\<open>None\<close>, when \<open>b\<close> is no member.\<close>

definition speed_level :: "const \<Rightarrow> int \<Rightarrow> int option" where
  "speed_level c b = (if b \<in> set (SPEED_LEVELS c) then Some b else None)"

text \<open>
  \<^verbatim>\<open>_notification_callback(char, byte_array)\<close>. The message is decrypted and turned into
  bytes before the dispatch, so a message that is not hex raises whatever its type. Each
  branch is taken only when the message starts with the type's marker \<^emph>\<open>and\<close> the
  callback of that type is registered; the branches are tried in the order position,
  running, status. The running branch only reads byte 5.
\<close>

definition notification_callback ::
  "const \<Rightarrow> MotionCrypt \<Rightarrow> 8 word list \<Rightarrow> world \<Rightarrow> error + world" where
  "notification_callback c crypt byte_array s =
     (let decrypted_message = decrypt crypt (bytes_hex byte_array)
      in bind_err (fromhex decrypted_message) (\<lambda>bs.
         if startswith decrypted_message (NOTIFICATION_PERCENT c) \<and> position_callback s then
           bind_err (byte_at bs 4) (\<lambda>b4.
           bind_err (byte_at bs 6) (\<lambda>b6.
           bind_err (byte_at bs 7) (\<lambda>b7.
             let info = MotionPositionInfo_init b4 (int_from_bytes2 b6 b7);
                 s1 = s\<lparr>end_position_info := Some info\<rparr>
             in Inr (emit (PositionCallback b6 (angle_percentage b7) info) s1))))
         else if startswith decrypted_message (NOTIFICATION_RUNNING c) \<and> running_callback s then
           bind_err (byte_at bs 5) (\<lambda>b5. Inr s)
         else if startswith decrypted_message (NOTIFICATION_STATUS c) \<and> status_callback s then
           bind_err (byte_at bs 6) (\<lambda>b6.
           bind_err (byte_at bs 7) (\<lambda>b7.
           bind_err (byte_at bs 17) (\<lambda>b17.
           bind_err (byte_at bs 4) (\<lambda>b4.
             let info = MotionPositionInfo_init b4 (int_from_bytes2 b6 b7);
                 s1 = s\<lparr>end_position_info := Some info\<rparr>
             in bind_err (byte_at bs 12) (\<lambda>b12.
                  Inr (emit (StatusCallback b6 (angle_percentage b7) b17
                               (speed_level c b12) info) s1))))))
         else Inr s))"

subsection \<open>Disconnecting\<close>

text \<open>
  \<^verbatim>\<open>Task.cancel()\<close>: a pending task ends cancelled, so that whoever awaits it gets
  \<^verbatim>\<open>CancelledError\<close>; a task that is done stays as it is.
\<close>

definition cancel_task :: "Task \<Rightarrow> world \<Rightarrow> world" where
  "cancel_task h s =
     emit (TaskCancel h)
       (s\<lparr>tasks := (tasks s)(h := (case tasks s h of Pending \<Rightarrow> Cancelled | st \<Rightarrow> st))\<rparr>)"

text \<open>
  \<^verbatim>\<open>disconnect()\<close>. The argument \<open>transport\<close> is what
  \<^verbatim>\<open>await self._current_bleak_client.disconnect()\<close> does when it is reached: \<open>None\<close> when it
  returns, \<open>Some e\<close> when it raises \<open>e\<close>, which leaves the method at once.
\<close>

definition disconnect :: "error option \<Rightarrow> world \<Rightarrow> (error + unit) \<times> world" where
  "disconnect transport s =
     (let s1 = set_connection DISCONNECTING s;
          s2 = (case connection_task s1 of
                  None \<Rightarrow> s1
                | Some h \<Rightarrow> (cancel_disconnect_timer (cancel_task h s1))\<lparr>connection_task := None\<rparr>)
      in case current_bleak_client s2 of
           None \<Rightarrow> (Inr (), set_connection DISCONNECTED s2)
         | Some cl \<Rightarrow>
             (let s3 = emit ClientDisconnect (cancel_disconnect_timer s2)
              in case transport of
                   Some e \<Rightarrow> (Inl e, s3)
                 | None \<Rightarrow>
                     (Inr (), set_connection DISCONNECTED (s3\<lparr>current_bleak_client := None\<rparr>))))"

subsection \<open>The command dispatcher\<close>

text \<open>
  \<^verbatim>\<open>except BleakError\<close> catches \<^verbatim>\<open>BleakError\<close> and its subclasses, among them the two
  errors of the connector.
\<close>

definition is_BleakError :: "error \<Rightarrow> bool" where
  "is_BleakError e =
     (e = BleakError \<or> e = BleakOutOfConnectionSlotsError \<or> e = BleakNotFoundError)"

text \<open>
  The loop of \<^verbatim>\<open>_send_command\<close>, from the value \<open>number_of_tries\<close> on. The argument
  \<open>writes\<close> says what the write of each try does: \<open>writes k = None\<close> when the \<open>k\<close>-th
  \<^verbatim>\<open>write_gatt_char\<close> of the call (counted from 0) returns, \<open>Some e\<close> when it raises \<open>e\<close>.
  A function that leaves its loop by the loop condition returns \<^verbatim>\<open>None\<close>.
\<close>

function send_loop ::
  "const \<Rightarrow> (nat \<Rightarrow> error option) \<Rightarrow> error option \<Rightarrow> string \<Rightarrow> int \<Rightarrow> world
     \<Rightarrow> (error + pyval) \<times> world" where
  "send_loop c writes transport command number_of_tries s =
     (if number_of_tries < SETTING_MAX_COMMAND_ATTEMPTS c then
        (case current_bleak_client s of
           None \<Rightarrow> (Inr (PyBool False), s)
         | Some cl \<Rightarrow>
             (case fromhex command of
                Inl e \<Rightarrow> (Inl e, s)
              | Inr bs \<Rightarrow>
                  (let s1 = emit (WriteGattChar bs) s
                   in case writes (nat number_of_tries) of
                        None \<Rightarrow> (Inr (PyBool True), s1)
                      | Some e \<Rightarrow>
                          if is_BleakError e then
                            (if number_of_tries = SETTING_MAX_COMMAND_ATTEMPTS c then
                               (case disconnect transport s1 of
                                  (Inl e', s2) \<Rightarrow> (Inl e', s2)
                                | (Inr u, s2) \<Rightarrow> (Inl e, s2))
                             else send_loop c writes transport command (number_of_tries + 1) s1)
                          else (Inl e, s1))))
      else (Inr PyNone, s))"
  by pat_completeness auto
termination
  by (relation "measure (\<lambda>(c, writes, transport, command, n, s).
        nat (SETTING_MAX_COMMAND_ATTEMPTS c - n))") auto

declare send_loop.simps [simp del]

text \<open>
  \<^verbatim>\<open>_send_command(command_prefix)\<close>: the command is the encrypted prefix followed by the
  time stamp, built once before the loop.
\<close>

definition send_command ::
  "const \<Rightarrow> MotionCrypt \<Rightarrow> (nat \<Rightarrow> error option) \<Rightarrow> error option \<Rightarrow> string \<Rightarrow> world
     \<Rightarrow> (error + pyval) \<times> world" where
  "send_command c crypt writes transport command_prefix s =
     send_loop c writes transport (encrypt crypt (command_prefix @ get_time crypt)) 0 s"

subsection \<open>The connection coordinator\<close>

text \<open>\<^verbatim>\<open>MotionDevice.is_connected()\<close>.\<close>

definition device_is_connected :: "world \<Rightarrow> bool" where
  "device_is_connected s =
     (case current_bleak_client s of None \<Rightarrow> False | Some cl \<Rightarrow> is_connected cl)"

text \<open>
  A coroutine that reaches \<^verbatim>\<open>await self._connection_task\<close> is suspended there until the
  task is done, and other callers run in the meantime. So a coroutine is modelled in two
  halves: its start, which either finishes (\<open>Done\<close>) or stops at that await (\<open>Await\<close>,
  with the task it awaits and the caller time it holds), and its resumption, which
  yields nothing while the task is pending.

  \<^verbatim>\<open>_connect_if_not_connecting\<close>: the start records the caller time and creates the task
  when none is recorded, through the host's \<^verbatim>\<open>create_task\<close> when one is set. The task
  runs \<^verbatim>\<open>_connect\<close>, whose result comes back through the state of the task.
\<close>

datatype 'a step = Done "error + 'a" | Await Task int

definition connect_if_not_connecting_start :: "int \<Rightarrow> world \<Rightarrow> bool step \<times> world" where
  "connect_if_not_connecting_start time_ns s =
     (let this_connection_caller_time = time_ns;
          s1 = s\<lparr>last_connection_caller_time := Some this_connection_caller_time\<rparr>
      in case connection_task s1 of
           None \<Rightarrow>
             (let h = next_handle s1;
                  s2 = emit (TaskCreate h (ha_create_task s1))
                         (s1\<lparr>tasks := (tasks s1)(h := Pending), next_handle := Suc h\<rparr>)
              in (Await h this_connection_caller_time, s2\<lparr>connection_task := Some h\<rparr>))
         | Some h \<Rightarrow> (Await h this_connection_caller_time, s1))"

definition connect_if_not_connecting_resume ::
  "Task \<Rightarrow> int \<Rightarrow> world \<Rightarrow> (error + bool) option \<times> world" where
  "connect_if_not_connecting_resume h this_connection_caller_time s =
     (case tasks s h of
        Pending \<Rightarrow> (None, s)
      | Returned ready \<Rightarrow>
          if \<not> ready then (Some (Inr False), s)
          else (let s1 = s\<lparr>connection_task := None\<rparr>;
                    is_last_caller =
                      (last_connection_caller_time s1 = Some this_connection_caller_time)
                in (Some (Inr is_last_caller), s1))
      | Raised e \<Rightarrow>
          if e = BleakOutOfConnectionSlotsError \<or> e = BleakNotFoundError then
            (Some (Inl e), (set_connection DISCONNECTED s)\<lparr>connection_task := None\<rparr>)
          else (Some (Inl e), s)
      | Cancelled \<Rightarrow>
          (Some (Inr False), (set_connection DISCONNECTED s)\<lparr>connection_task := None\<rparr>))"

text \<open>
  \<^verbatim>\<open>connect()\<close>: when the device is connected the timer is refreshed and the answer is
  \<^verbatim>\<open>True\<close>; otherwise the call goes on in \<^verbatim>\<open>_connect_if_not_connecting\<close>. The two clock
  readings are the \<^verbatim>\<open>time_ns()\<close> of the caller time and the \<^verbatim>\<open>time_ns() // 1e6\<close> of the
  timer.
\<close>

definition connect_start :: "const \<Rightarrow> int \<Rightarrow> int \<Rightarrow> world \<Rightarrow> bool step \<times> world" where
  "connect_start c time_ns now_ms s =
     (if \<not> device_is_connected s then connect_if_not_connecting_start time_ns s
      else (case refresh_disconnect_timer c now_ms None False s of
              Inl e \<Rightarrow> (Done (Inl e), s)
            | Inr s1 \<Rightarrow> (Done (Inr True), s1)))"

text \<open>The event loop marks a task as done when its coroutine ends.\<close>

definition task_finishes :: "Task \<Rightarrow> task_state \<Rightarrow> world \<Rightarrow> world" where
  "task_finishes h r s = s\<lparr>tasks := (tasks s)(h := r)\<rparr>"

text \<open>
  Callers that call \<^verbatim>\<open>connect()\<close> one after the other on a device that is not connected,
  each running until it awaits; and their resumptions, in the order in which they
  started to wait.
\<close>

fun enter_all :: "int list \<Rightarrow> world \<Rightarrow> bool step list \<times> world" where
  "enter_all [] s = ([], s)"
| "enter_all (time_ns # rest) s =
     (case connect_if_not_connecting_start time_ns s of
        (w, s1) \<Rightarrow> (case enter_all rest s1 of (ws, s2) \<Rightarrow> (w # ws, s2)))"

fun resume_all :: "bool step list \<Rightarrow> world \<Rightarrow> (error + bool) option list \<times> world" where
  "resume_all [] s = ([], s)"
| "resume_all (Await h t # rest) s =
     (case connect_if_not_connecting_resume h t s of
        (r, s1) \<Rightarrow> (case resume_all rest s1 of (rs, s2) \<Rightarrow> (r # rs, s2)))"
| "resume_all (Done r # rest) s =
     (case resume_all rest s of (rs, s2) \<Rightarrow> (Some r # rs, s2))"

subsection \<open>Commands and their guards\<close>

text \<open>
  \<^verbatim>\<open>hex(i)\<close> writes a sign when needed, \<^verbatim>\<open>0x\<close>, and the digits without leading zeros;
  \<^verbatim>\<open>[2:]\<close> drops the first two characters; \<^verbatim>\<open>zfill(width)\<close> pads with zeros on the left,
  after a leading sign if there is one.
\<close>

function hex_digits :: "nat \<Rightarrow> string" where
  "hex_digits n = (if n < 16 then [hex_char n] else hex_digits (n div 16) @ [hex_char (n mod 16)])"
  by pat_completeness auto
termination
  by (relation "measure id") auto

declare hex_digits.simps [simp del]

definition py_hex :: "int \<Rightarrow> string" where
  "py_hex i = (if i < 0 then ''-0x'' @ hex_digits (nat (- i)) else ''0x'' @ hex_digits (nat i))"

definition zfill :: "nat \<Rightarrow> string \<Rightarrow> string" where
  "zfill width str =
     (if width \<le> length str then str
      else (case str of
              [] \<Rightarrow> replicate width CHR ''0''
            | ch # rest \<Rightarrow>
                if ch = CHR ''+'' \<or> ch = CHR ''-''
                then ch # replicate (width - length str) CHR ''0'' @ rest
                else replicate (width - length str) CHR ''0'' @ str))"

text \<open>
  The arguments of a call \<^verbatim>\<open>device.method(a1, ..., k1=v1, ...)\<close>: the positional values in
  their order and the keyword values by name. The receiver is not among them.
\<close>

type_synonym call = "pyval list \<times> (string \<times> pyval) list"

text \<open>
  How Python binds a call to a function whose parameters, after \<^verbatim>\<open>self\<close>, are \<open>params\<close>,
  those in \<open>optional\<close> having a default, and which takes neither \<^verbatim>\<open>*args\<close> nor
  \<^verbatim>\<open>**kwargs\<close>: too many positional values, a keyword that is no parameter, a parameter
  given twice, and a parameter without default that is not given each raise
  \<^verbatim>\<open>TypeError\<close>.
\<close>

definition bind_function ::
  "string list \<Rightarrow> string list \<Rightarrow> call \<Rightarrow> error + (string \<times> pyval) list" where
  "bind_function params optional call =
     (case call of (args, kwargs) \<Rightarrow>
        if length params < length args then Inl TypeError
        else if list_ex (\<lambda>k. k \<notin> set params) (map fst kwargs) then Inl TypeError
        else if list_ex (\<lambda>k. k \<in> set (map fst kwargs)) (take (length args) params)
        then Inl TypeError
        else (let bound = zip params args @ kwargs
              in if list_ex (\<lambda>k. k \<notin> set optional \<and> k \<notin> set (map fst bound)) params
                 then Inl TypeError
                 else Inr bound))"

text \<open>
  A value used as a number: \<^verbatim>\<open>bool\<close> is a subclass of \<^verbatim>\<open>int\<close> (\<^verbatim>\<open>True\<close> is 1), and
  \<^verbatim>\<open>None\<close> in a comparison or a product raises \<^verbatim>\<open>TypeError\<close>.
\<close>

fun to_int :: "pyval \<Rightarrow> error + int" where
  "to_int (PyInt i) = Inr i"
| "to_int (PyBool b) = Inr (if b then 1 else 0)"
| "to_int PyNone = Inl TypeError"

text \<open>The methods that carry a guard.\<close>

datatype command =
    Percentage
  | Open
  | Close
  | Stop
  | Favorite
  | PercentageTilt
  | OpenTilt
  | CloseTilt

text \<open>
  The bodies of \<^verbatim>\<open>percentage\<close> and \<^verbatim>\<open>percentage_tilt\<close>, from the value bound to the parameter
  \<^verbatim>\<open>percentage\<close>. \<^verbatim>\<open>percentage\<close> asserts its range first. \<^verbatim>\<open>percentage_tilt\<close> sends
  \<^verbatim>\<open>round(180 * percentage / 100)\<close> unchecked.
\<close>

definition percentage ::
  "const \<Rightarrow> MotionCrypt \<Rightarrow> (nat \<Rightarrow> error option) \<Rightarrow> error option \<Rightarrow> int \<Rightarrow> world
     \<Rightarrow> (error + pyval) \<times> world" where
  "percentage c crypt writes transport percentage_arg s =
     (if \<not> (\<not> percentage_arg < 0 \<and> \<not> percentage_arg > 100) then (Inl AssertionError, s)
      else (let command_prefix =
                  COMMAND_PERCENT c @ zfill 2 (drop 2 (py_hex percentage_arg)) @ ''00''
            in send_command c crypt writes transport command_prefix s))"

definition percentage_tilt ::
  "const \<Rightarrow> MotionCrypt \<Rightarrow> (nat \<Rightarrow> error option) \<Rightarrow> error option \<Rightarrow> int \<Rightarrow> world
     \<Rightarrow> (error + pyval) \<times> world" where
  "percentage_tilt c crypt writes transport percentage_arg s =
     (let angle = py_round (180 * of_int percentage_arg / 100);
          command_prefix = COMMAND_ANGLE c @ ''00'' @ zfill 2 (drop 2 (py_hex angle))
      in send_command c crypt writes transport command_prefix s)"

text \<open>
  The value that a successful binding gives to the parameter \<^verbatim>\<open>percentage\<close>, as a number.
\<close>

definition percentage_of :: "call \<Rightarrow> error + int" where
  "percentage_of call =
     (case bind_function [''percentage'', ''ignore_end_positions_not_set'']
             [''ignore_end_positions_not_set''] call of
        Inl e \<Rightarrow> Inl e
      | Inr bound \<Rightarrow>
          (case map_of bound ''percentage'' of
             None \<Rightarrow> Inl TypeError
           | Some v \<Rightarrow> to_int v))"

text \<open>
  The undecorated methods, called with the arguments that reach them.
  \<^verbatim>\<open>percentage\<close> and \<^verbatim>\<open>percentage_tilt\<close> have the parameters \<^verbatim>\<open>percentage\<close> and
  \<^verbatim>\<open>ignore_end_positions_not_set=False\<close>; \<^verbatim>\<open>open\<close>, \<^verbatim>\<open>close\<close>, \<^verbatim>\<open>open_tilt\<close> and \<^verbatim>\<open>close_tilt\<close>
  have \<^verbatim>\<open>ignore_end_positions_not_set=False\<close> alone; \<^verbatim>\<open>stop\<close> and \<^verbatim>\<open>favorite\<close> have none.
  None of them reads \<^verbatim>\<open>ignore_end_positions_not_set\<close>.
\<close>

fun command_body ::
  "const \<Rightarrow> MotionCrypt \<Rightarrow> (nat \<Rightarrow> error option) \<Rightarrow> error option \<Rightarrow> command \<Rightarrow> call
     \<Rightarrow> world \<Rightarrow> (error + pyval) \<times> world" where
  "command_body c crypt writes transport Percentage call s =
     (case percentage_of call of
        Inl e \<Rightarrow> (Inl e, s)
      | Inr p \<Rightarrow> percentage c crypt writes transport p s)"
| "command_body c crypt writes transport Open call s =
     (case bind_function [''ignore_end_positions_not_set'']
             [''ignore_end_positions_not_set''] call of
        Inl e \<Rightarrow> (Inl e, s)
      | Inr bound \<Rightarrow> send_command c crypt writes transport (COMMAND_OPEN c) s)"
| "command_body c crypt writes transport Close call s =
     (case bind_function [''ignore_end_positions_not_set'']
             [''ignore_end_positions_not_set''] call of
        Inl e \<Rightarrow> (Inl e, s)
      | Inr bound \<Rightarrow> send_command c crypt writes transport (COMMAND_CLOSE c) s)"
| "command_body c crypt writes transport Stop call s =
     (case bind_function [] [] call of
        Inl e \<Rightarrow> (Inl e, s)
      | Inr bound \<Rightarrow> send_command c crypt writes transport (COMMAND_STOP c) s)"
| "command_body c crypt writes transport Favorite call s =
     (case bind_function [] [] call of
        Inl e \<Rightarrow> (Inl e, s)
      | Inr bound \<Rightarrow> send_command c crypt writes transport (COMMAND_FAVORITE c) s)"
| "command_body c crypt writes transport PercentageTilt call s =
     (case percentage_of call of
        Inl e \<Rightarrow> (Inl e, s)
      | Inr p \<Rightarrow> percentage_tilt c crypt writes transport p s)"
| "command_body c crypt writes transport OpenTilt call s =
     (case bind_function [''ignore_end_positions_not_set'']
             [''ignore_end_positions_not_set''] call of
        Inl e \<Rightarrow> (Inl e, s)
      | Inr bound \<Rightarrow>
          send_command c crypt writes transport
            (COMMAND_ANGLE c @ ''00'' @ zfill 2 (drop 2 (py_hex 0))) s)"
| "command_body c crypt writes transport CloseTilt call s =
     (case bind_function [''ignore_end_positions_not_set'']
             [''ignore_end_positions_not_set''] call of
        Inl e \<Rightarrow> (Inl e, s)
      | Inr bound \<Rightarrow>
          send_command c crypt writes transport
            (COMMAND_ANGLE c @ ''00'' @ zfill 2 (drop 2 (py_hex 180))) s)"

text \<open>
  The wrapper of \<^verbatim>\<open>requires_end_positions\<close> is
  \<^verbatim>\<open>wrapper(self, ignore_end_positions_not_set=False, *args, **kwargs)\<close>. So Python binds
  the first positional value of the call, if there is one, to
  \<^verbatim>\<open>ignore_end_positions_not_set\<close> (and raises \<^verbatim>\<open>TypeError\<close> when the keyword is given as
  well); without positional values it takes the keyword, or the default \<^verbatim>\<open>False\<close>. The
  wrapper tests the value by \<^verbatim>\<open>not\<close> and calls the function with the remaining positional
  values and the remaining keywords: the value itself is not passed on.
\<close>

definition keyword_flag :: "(string \<times> pyval) list \<Rightarrow> pyval" where
  "keyword_flag kwargs =
     (case map_of kwargs ''ignore_end_positions_not_set'' of
        Some v \<Rightarrow> v
      | None \<Rightarrow> PyBool False)"

definition without_flag :: "(string \<times> pyval) list \<Rightarrow> (string \<times> pyval) list" where
  "without_flag kwargs = filter (\<lambda>kv. fst kv \<noteq> ''ignore_end_positions_not_set'') kwargs"

definition bind_wrapper :: "call \<Rightarrow> error + pyval \<times> call" where
  "bind_wrapper call =
     (case call of (args, kwargs) \<Rightarrow>
        (case args of
           a # rest \<Rightarrow>
             if ''ignore_end_positions_not_set'' \<in> set (map fst kwargs) then Inl TypeError
             else Inr (a, (rest, kwargs))
         | [] \<Rightarrow> Inr (keyword_flag kwargs, ([], without_flag kwargs))))"

definition requires_end_positions ::
  "(call \<Rightarrow> world \<Rightarrow> (error + pyval) \<times> world) \<Rightarrow> call \<Rightarrow> world
     \<Rightarrow> (error + pyval) \<times> world" where
  "requires_end_positions func call s =
     (case bind_wrapper call of
        Inl e \<Rightarrow> (Inl e, s)
      | Inr (ignore_end_positions_not_set, rest) \<Rightarrow>
          if end_position_info s \<noteq> None
             \<and> \<not> UP (the (end_position_info s))
             \<and> \<not> truthy ignore_end_positions_not_set
          then (Inl NoEndPositionsException, s)
          else func rest s)"

text \<open>
  The wrappers of \<^verbatim>\<open>requires_favorite_position\<close> and of \<^verbatim>\<open>requires_connection\<close> are
  \<^verbatim>\<open>wrapper(self, *args, **kwargs)\<close> and pass the whole call on.
\<close>

definition requires_favorite_position ::
  "(call \<Rightarrow> world \<Rightarrow> (error + pyval) \<times> world) \<Rightarrow> call \<Rightarrow> world
     \<Rightarrow> (error + pyval) \<times> world" where
  "requires_favorite_position func call s =
     (if end_position_info s \<noteq> None
         \<and> \<not> UP (the (end_position_info s))
         \<and> \<not> truthy (FAVORITE (the (end_position_info s)))
      then (Inl NoFavoritePositionException, s)
      else func call s)"

text \<open>
  The wrapper of \<^verbatim>\<open>requires_connection\<close>, in two halves as \<^verbatim>\<open>connect()\<close> is: it awaits
  \<^verbatim>\<open>self.connect()\<close>, returns \<^verbatim>\<open>False\<close> when the answer is false and calls the function
  otherwise.
\<close>

definition after_connect ::
  "(world \<Rightarrow> (error + pyval) \<times> world) \<Rightarrow> error + bool \<Rightarrow> world \<Rightarrow> (error + pyval) \<times> world" where
  "after_connect func r s =
     (case r of
        Inl e \<Rightarrow> (Inl e, s)
      | Inr ready \<Rightarrow> if \<not> ready then (Inr (PyBool False), s) else func s)"

definition requires_connection_start ::
  "const \<Rightarrow> int \<Rightarrow> int \<Rightarrow> (world \<Rightarrow> (error + pyval) \<times> world) \<Rightarrow> world \<Rightarrow> pyval step \<times> world" where
  "requires_connection_start c time_ns now_ms func s =
     (case connect_start c time_ns now_ms s of
        (Await h t, s1) \<Rightarrow> (Await h t, s1)
      | (Done r, s1) \<Rightarrow> (case after_connect func r s1 of (r', s2) \<Rightarrow> (Done r', s2)))"

definition requires_connection_resume ::
  "Task \<Rightarrow> int \<Rightarrow> (world \<Rightarrow> (error + pyval) \<times> world) \<Rightarrow> world
     \<Rightarrow> (error + pyval) option \<times> world" where
  "requires_connection_resume h t func s =
     (case connect_if_not_connecting_resume h t s of
        (None, s1) \<Rightarrow> (None, s1)
      | (Some r, s1) \<Rightarrow> (case after_connect func r s1 of (r', s2) \<Rightarrow> (Some r', s2)))"

text \<open>
  The decorated methods, as a caller reaches them: \<^verbatim>\<open>@requires_connection\<close> is the outer
  decorator of each, and the inner one is \<^verbatim>\<open>@requires_favorite_position\<close> for \<^verbatim>\<open>favorite\<close>
  and \<^verbatim>\<open>@requires_end_positions\<close> for the others.
\<close>

definition guarded ::
  "const \<Rightarrow> MotionCrypt \<Rightarrow> (nat \<Rightarrow> error option) \<Rightarrow> error option \<Rightarrow> command \<Rightarrow> call \<Rightarrow> world
     \<Rightarrow> (error + pyval) \<times> world" where
  "guarded c crypt writes transport cmd call s =
     (if cmd = Favorite
      then requires_favorite_position (command_body c crypt writes transport cmd) call s
      else requires_end_positions (command_body c crypt writes transport cmd) call s)"

definition command_start ::
  "const \<Rightarrow> MotionCrypt \<Rightarrow> (nat \<Rightarrow> error option) \<Rightarrow> error option \<Rightarrow> int \<Rightarrow> int
     \<Rightarrow> command \<Rightarrow> call \<Rightarrow> world \<Rightarrow> pyval step \<times> world" where
  "command_start c crypt writes transport time_ns now_ms cmd call s =
     requires_connection_start c time_ns now_ms (guarded c crypt writes transport cmd call) s"

definition command_resume ::
  "const \<Rightarrow> MotionCrypt \<Rightarrow> (nat \<Rightarrow> error option) \<Rightarrow> error option \<Rightarrow> Task \<Rightarrow> int
     \<Rightarrow> command \<Rightarrow> call \<Rightarrow> world \<Rightarrow> (error + pyval) option \<times> world" where
  "command_resume c crypt writes transport h t cmd call s =
     requires_connection_resume h t (guarded c crypt writes transport cmd call) s"

section \<open>Properties\<close>

subsection \<open>The favorite flag\<close>

lemma and_ff00_ff_zero:
  fixes f :: int
  assumes "0 \<le> f" "f < 65536" "f AND 0xFF00 = 0" "f AND 0x00FF = 0"
  shows "f = 0"
proof -
  have e: "(0xFF00 OR 0x00FF :: int) = mask 16"
    by (simp add: mask_eq_exp_minus_1)
  have "f = take_bit 16 f"
    using assms(1,2) by (simp add: take_bit_int_eq_self)
  also have "\<dots> = f AND (0xFF00 OR 0x00FF)"
    unfolding e by (simp add: take_bit_eq_mask)
  also have "\<dots> = (f AND 0xFF00) OR (f AND 0x00FF)"
    by (rule bit.conj_disj_distrib)
  finally show ?thesis using assms(3,4) by simp
qed

text \<open>
  C6. For every 16-bit favorite field value \<open>f\<close>, the \<^verbatim>\<open>FAVORITE\<close> field of the
  constructed \<^verbatim>\<open>MotionPositionInfo\<close> is truthy if and only if \<open>f\<close> is not zero; it is
  truthy for 0x0001, 0x0100 and 0xFFFF and falsy for 0x0000.
\<close>

theorem favorite_truthy_iff_nonzero:
  "(0 \<le> f \<and> f < 65536 \<longrightarrow>
      truthy (FAVORITE (MotionPositionInfo_init e f)) = (f \<noteq> 0))
   \<and> truthy (FAVORITE (MotionPositionInfo_init e 0x0001))
   \<and> truthy (FAVORITE (MotionPositionInfo_init e 0x0100))
   \<and> truthy (FAVORITE (MotionPositionInfo_init e 0xFFFF))
   \<and> \<not> truthy (FAVORITE (MotionPositionInfo_init e 0x0000))"
proof -
  have gen: "truthy (FAVORITE (MotionPositionInfo_init e f)) = (f \<noteq> 0)"
    if "0 \<le> f" "f < 65536"
    using and_ff00_ff_zero [OF that]
    by (auto simp: MotionPositionInfo_init_def py_or_def)
  have "truthy (FAVORITE (MotionPositionInfo_init e 0x0001))"
    by (simp add: MotionPositionInfo_init_def py_or_def)
  moreover have "truthy (FAVORITE (MotionPositionInfo_init e 0x0100))"
    by (simp add: MotionPositionInfo_init_def py_or_def)
  moreover have "truthy (FAVORITE (MotionPositionInfo_init e 0xFFFF))"
    by (simp add: MotionPositionInfo_init_def py_or_def)
  moreover have "\<not> truthy (FAVORITE (MotionPositionInfo_init e 0x0000))"
    by (simp add: MotionPositionInfo_init_def py_or_def)
  ultimately show ?thesis using gen by blast
qed

theorem favorite_truthy_iff_nonzero_witness:
  "(0::int) \<le> 0x0100 \<and> (0x0100::int) < 65536
   \<and> truthy (FAVORITE (MotionPositionInfo_init 0x0C 0x0100)) = ((0x0100::int) \<noteq> 0)"
  using favorite_truthy_iff_nonzero [of "0x0100" "0x0C"] by simp

subsection \<open>The disconnect timer\<close>

lemma arm_disconnect_timer_fields:
  "disconnect_time (arm_disconnect_timer t d s) = Some d"
  "disconnect_timer (arm_disconnect_timer t d s) = Some (new_timer s)"
  "log (arm_disconnect_timer t d s) =
     log s @ (case disconnect_timer s of None \<Rightarrow> [] | Some h \<Rightarrow> [TimerCancel h])
           @ [TimerArm (new_timer s) t]"
  by (simp_all add: arm_disconnect_timer_def cancel_disconnect_timer_def emit_def
        new_timer_def Let_def split: option.splits TimerHandle.splits)

text \<open>
  C4. With \<^verbatim>\<open>force\<close> false, \<^verbatim>\<open>refresh_disconnect_timer\<close> changes nothing when a timer is
  set and its deadline is later than now + timeout, and whenever a timer is set the
  deadline after the call is not earlier than before it. With \<^verbatim>\<open>force\<close> true the call
  cancels the timer that is set, if any, and arms a new one whose deadline is
  now + timeout.
\<close>

theorem refresh_disconnect_timer_policy:
  "(disconnect_timer s = Some h \<and> disconnect_time s = Some d
      \<and> d > now_ms + timeout_or_default c t * 1000
      \<longrightarrow> refresh_disconnect_timer c now_ms t False s = Inr s)
   \<and> (disconnect_timer s = Some h \<and> disconnect_time s = Some d
      \<longrightarrow> (\<exists>s' d'. refresh_disconnect_timer c now_ms t False s = Inr s'
             \<and> disconnect_time s' = Some d' \<and> d \<le> d'))
   \<and> (\<exists>s'. refresh_disconnect_timer c now_ms t True s = Inr s'
         \<and> disconnect_time s' = Some (now_ms + timeout_or_default c t * 1000)
         \<and> disconnect_timer s' = Some (new_timer s)
         \<and> log s' = log s
              @ (case disconnect_timer s of None \<Rightarrow> [] | Some h' \<Rightarrow> [TimerCancel h'])
              @ [TimerArm (new_timer s) (timeout_or_default c t)])"
proof (intro conjI impI)
  assume "disconnect_timer s = Some h \<and> disconnect_time s = Some d
      \<and> d > now_ms + timeout_or_default c t * 1000"
  then show "refresh_disconnect_timer c now_ms t False s = Inr s"
    by (simp add: refresh_disconnect_timer_def)
next
  assume a: "disconnect_timer s = Some h \<and> disconnect_time s = Some d"
  show "\<exists>s' d'. refresh_disconnect_timer c now_ms t False s = Inr s'
             \<and> disconnect_time s' = Some d' \<and> d \<le> d'"
  proof (cases "d > now_ms + timeout_or_default c t * 1000")
    case True
    with a show ?thesis by (simp add: refresh_disconnect_timer_def)
  next
    case False
    with a show ?thesis
      by (simp add: refresh_disconnect_timer_def arm_disconnect_timer_fields Let_def)
  qed
next
  show "\<exists>s'. refresh_disconnect_timer c now_ms t True s = Inr s'
         \<and> disconnect_time s' = Some (now_ms + timeout_or_default c t * 1000)
         \<and> disconnect_timer s' = Some (new_timer s)
         \<and> log s' = log s
              @ (case disconnect_timer s of None \<Rightarrow> [] | Some h' \<Rightarrow> [TimerCancel h'])
              @ [TimerArm (new_timer s) (timeout_or_default c t)]"
    by (simp add: refresh_disconnect_timer_def arm_disconnect_timer_fields Let_def)
qed

theorem refresh_disconnect_timer_policy_witness:
  "disconnect_timer (MotionDevice_init\<lparr>disconnect_time := Some 50000,
        disconnect_timer := Some (LoopTimer 0), next_handle := 1\<rparr>) = Some (LoopTimer 0)
   \<and> disconnect_time (MotionDevice_init\<lparr>disconnect_time := Some 50000,
        disconnect_timer := Some (LoopTimer 0), next_handle := 1\<rparr>) = Some 50000
   \<and> (50000::int) > 1000 + timeout_or_default example_const None * 1000
   \<and> refresh_disconnect_timer example_const 1000 None False
        (MotionDevice_init\<lparr>disconnect_time := Some 50000,
           disconnect_timer := Some (LoopTimer 0), next_handle := 1\<rparr>)
      = Inr (MotionDevice_init\<lparr>disconnect_time := Some 50000,
           disconnect_timer := Some (LoopTimer 0), next_handle := 1\<rparr>)"
  using refresh_disconnect_timer_policy
    [of "MotionDevice_init\<lparr>disconnect_time := Some 50000,
           disconnect_timer := Some (LoopTimer 0), next_handle := 1\<rparr>"
        "LoopTimer 0" 50000 1000 example_const None]
  by (simp add: MotionDevice_init_def example_const_def timeout_or_default_def)

subsection \<open>The notification decoder\<close>

lemma py_round_nearest:
  assumes "of_int r - 1 / 2 < x" "x < of_int r + 1 / 2"
  shows "py_round x = r"
proof -
  have "\<lfloor>x\<rfloor> = r \<or> \<lfloor>x\<rfloor> = r - 1"
    using assms by linarith
  then show ?thesis
  proof
    assume f: "\<lfloor>x\<rfloor> = r"
    then have "x - of_int r < 1 / 2" using assms by linarith
    with f show ?thesis by (simp add: py_round_def Let_def)
  next
    assume f: "\<lfloor>x\<rfloor> = r - 1"
    then have "1 / 2 < x - of_int (r - 1)" using assms by simp
    with f show ?thesis by (simp add: py_round_def Let_def)
  qed
qed

text \<open>
  The exact quotient \<open>100 * a / 180\<close> stays at least 1/18 away from the points half way
  between two integers, on both sides of its nearest integer.
\<close>

lemma quotient_margin:
  fixes a :: int
  shows "of_int ((10 * a + 9) div 18) - 1 / 2 + 1 / 18 \<le> (100 * of_int a / 180 :: rat)"
    and "(100 * of_int a / 180 :: rat) \<le> of_int ((10 * a + 9) div 18) + 1 / 2 - 1 / 18"
proof -
  define r where "r = (10 * a + 9) div 18"
  have "18 * r \<le> 10 * a + 9" "10 * a + 9 < 18 * r + 18" "18 * r \<noteq> 10 * a + 9"
    unfolding r_def by presburger+
  then have "18 * r + 1 \<le> 10 * a + 9" "10 * a + 9 \<le> 18 * r + 17"
    by linarith+
  then have "18 * r + 2 \<le> 10 * a + 10" "10 * a + 8 \<le> 18 * r + 16"
    by presburger+
  then have "(of_int (18 * r + 2) :: rat) \<le> of_int (10 * a + 10)"
    "(of_int (10 * a + 8) :: rat) \<le> of_int (18 * r + 16)"
    by (simp_all only: of_int_le_iff)
  then show "of_int ((10 * a + 9) div 18) - 1 / 2 + 1 / 18 \<le> (100 * of_int a / 180 :: rat)"
    and "(100 * of_int a / 180 :: rat) \<le> of_int ((10 * a + 9) div 18) + 1 / 2 - 1 / 18"
    unfolding r_def[symmetric] by (simp_all add: field_simps)
qed

text \<open>
  So every number within 1/18 of the exact quotient, the double-precision quotient of
  the source among them, is rounded to the same integer.
\<close>

lemma py_round_near_quotient:
  assumes "\<bar>x - 100 * of_int a / 180\<bar> < 1 / 18"
  shows "py_round x = (10 * a + 9) div 18"
  using quotient_margin [of a] assms
  by (intro py_round_nearest) linarith+

lemma angle_percentage_closed: "angle_percentage a = (10 * a + 9) div 18"
  unfolding angle_percentage_def by (rule py_round_near_quotient) simp

lemma angle_percentage_round: "angle_percentage a = round (100 * real_of_int a / 180)"
proof -
  have "round (100 * real_of_int a / 180) = \<lfloor>real_of_int (10 * a + 9) / real_of_int 18\<rfloor>"
    unfolding round_def by (rule arg_cong [where f = floor]) (simp add: field_simps)
  also have "\<dots> = (10 * a + 9) div 18"
    by (rule floor_divide_of_int_eq)
  finally show ?thesis by (simp add: angle_percentage_closed)
qed

lemma angle_percentage_range:
  assumes "0 \<le> a" "a \<le> 180"
  shows "0 \<le> angle_percentage a \<and> angle_percentage a \<le> 100"
proof -
  have "0 \<le> (10 * a + 9) div 18"
    using assms(1) by (simp add: pos_imp_zdiv_nonneg_iff)
  moreover have "(10 * a + 9) div 18 \<le> (10 * 180 + 9) div 18"
    using assms(2) by (intro zdiv_mono1) simp_all
  ultimately show ?thesis
    by (simp add: angle_percentage_closed)
qed

text \<open>What the position branch does to a frame of at least eight bytes.\<close>

lemma notification_callback_position:
  assumes "startswith (decrypt crypt (bytes_hex byte_array)) (NOTIFICATION_PERCENT c)"
    and "position_callback s"
    and "fromhex (decrypt crypt (bytes_hex byte_array)) = Inr bs"
    and "8 \<le> length bs"
  shows "notification_callback c crypt byte_array s =
           Inr (s\<lparr>end_position_info :=
                     Some (MotionPositionInfo_init (uint (bs ! 4))
                             (int_from_bytes2 (uint (bs ! 6)) (uint (bs ! 7)))),
                   log := log s @
                     [PositionCallback (uint (bs ! 6)) (angle_percentage (uint (bs ! 7)))
                        (MotionPositionInfo_init (uint (bs ! 4))
                           (int_from_bytes2 (uint (bs ! 6)) (uint (bs ! 7))))]\<rparr>)"
  using assms
  by (simp add: notification_callback_def bind_err_def byte_at_def emit_def Let_def)

text \<open>
  C5. Decoding a position frame whose angle byte is \<open>a\<close>, from 0 to 180, reports the tilt
  percentage \<open>round (100 * a / 180)\<close>, a number from 0 to 100; the angle 90 gives 50, the
  angle 0 gives 0 and the angle 180 gives 100.
\<close>

theorem position_frame_angle_percentage:
  assumes "startswith (decrypt crypt (bytes_hex byte_array)) (NOTIFICATION_PERCENT c)"
    and "position_callback s"
    and "fromhex (decrypt crypt (bytes_hex byte_array)) = Inr bs"
    and "8 \<le> length bs"
    and "uint (bs ! 7) = a"
    and "a \<le> 180"
  shows "(\<exists>s' position info.
            notification_callback c crypt byte_array s = Inr s'
            \<and> log s' = log s @ [PositionCallback position (angle_percentage a) info])
         \<and> angle_percentage a = round (100 * real_of_int a / 180)
         \<and> 0 \<le> angle_percentage a \<and> angle_percentage a \<le> 100
         \<and> angle_percentage 90 = 50 \<and> angle_percentage 0 = 0 \<and> angle_percentage 180 = 100"
proof -
  have "0 \<le> a" using assms(5) by auto
  then have "0 \<le> angle_percentage a \<and> angle_percentage a \<le> 100"
    using assms(6) by (simp add: angle_percentage_range)
  moreover have "angle_percentage 90 = 50" "angle_percentage 0 = 0" "angle_percentage 180 = 100"
    by (simp_all add: angle_percentage_closed)
  moreover have "\<exists>s' position info.
            notification_callback c crypt byte_array s = Inr s'
            \<and> log s' = log s @ [PositionCallback position (angle_percentage a) info]"
    using notification_callback_position [OF assms(1-4)] assms(5) by simp
  ultimately show ?thesis
    using angle_percentage_round [of a] by blast
qed

theorem position_frame_angle_percentage_witness:
  "startswith (decrypt example_crypt (bytes_hex [0x07, 0x04, 0x04, 0x02, 0x0C, 0x00, 0x32, 0x5A]))
     (NOTIFICATION_PERCENT example_const)
   \<and> position_callback (MotionDevice_init\<lparr>position_callback := True\<rparr>)
   \<and> fromhex (decrypt example_crypt (bytes_hex [0x07, 0x04, 0x04, 0x02, 0x0C, 0x00, 0x32, 0x5A]))
       = Inr [0x07, 0x04, 0x04, 0x02, 0x0C, 0x00, 0x32, 0x5A]
   \<and> (\<exists>s' position info.
         notification_callback example_const example_crypt
           [0x07, 0x04, 0x04, 0x02, 0x0C, 0x00, 0x32, 0x5A]
           (MotionDevice_init\<lparr>position_callback := True\<rparr>) = Inr s'
         \<and> log s' = [PositionCallback position 50 info])"
proof -
  have h1: "startswith (decrypt example_crypt (bytes_hex [0x07, 0x04, 0x04, 0x02, 0x0C, 0x00, 0x32, 0x5A]))
     (NOTIFICATION_PERCENT example_const)"
    by (simp add: startswith_def example_crypt_def example_const_def bytes_hex_def hex_char_def)
  have h2: "position_callback (MotionDevice_init\<lparr>position_callback := True\<rparr>)"
    by simp
  have h3: "fromhex (decrypt example_crypt (bytes_hex [0x07, 0x04, 0x04, 0x02, 0x0C, 0x00, 0x32, 0x5A]))
       = Inr [0x07, 0x04, 0x04, 0x02, 0x0C, 0x00, 0x32, 0x5A]"
    by (simp add: example_crypt_def bytes_hex_def hex_char_def hex_digit_def is_space_def)
  have h4: "8 \<le> length [0x07, 0x04, 0x04, 0x02, 0x0C, 0x00, 0x32, 0x5A :: 8 word]"
    by simp
  have h5: "uint ([0x07, 0x04, 0x04, 0x02, 0x0C, 0x00, 0x32, 0x5A :: 8 word] ! 7) = 90"
    by simp
  have h6: "(90 :: int) \<le> 180"
    by simp
  have h7: "angle_percentage 90 = 50"
    by (simp add: angle_percentage_closed)
  from position_frame_angle_percentage [OF h1 h2 h3 h4 h5 h6] h1 h2 h3
  show ?thesis unfolding h7 by (simp add: MotionDevice_init_def)
qed

text \<open>
  C8, as stated: every frame whose header marks it as a position frame replaces the
  cached end-position info and emits a position event. It fails on a device on which no
  position callback is registered: the position branch is guarded by
  \<^verbatim>\<open>self._position_callback is not None\<close>, so the frame below, whose header is the position
  marker, leaves the cache at \<^verbatim>\<open>None\<close> and calls nothing.
\<close>

theorem position_frame_without_callback_counterexample:
  "startswith (decrypt example_crypt (bytes_hex [0x07, 0x04, 0x04, 0x02, 0x0C, 0x00, 0x32, 0x5A]))
     (NOTIFICATION_PERCENT example_const)
   \<and> notification_callback example_const example_crypt
        [0x07, 0x04, 0x04, 0x02, 0x0C, 0x00, 0x32, 0x5A] MotionDevice_init
      = Inr MotionDevice_init
   \<and> end_position_info MotionDevice_init = None
   \<and> log MotionDevice_init = []"
  by (simp add: notification_callback_def bind_err_def startswith_def example_crypt_def
        example_const_def bytes_hex_def hex_char_def hex_digit_def is_space_def
        MotionDevice_init_def)

text \<open>
  In general, a frame decoded while no callback at all is registered changes nothing.
\<close>

lemma notification_callback_without_callbacks:
  assumes "\<not> position_callback s" "\<not> running_callback s" "\<not> status_callback s"
    and "fromhex (decrypt crypt (bytes_hex byte_array)) = Inr bs"
  shows "notification_callback c crypt byte_array s = Inr s"
  using assms by (simp add: notification_callback_def bind_err_def)

text \<open>
  C8, amended: for every frame of at least eight bytes whose header marks it as a position
  frame, decoded while a position callback is registered, the decoder sets the cached
  end-position info to a value computed from bytes 4, 6 and 7 of that frame alone,
  whatever the cache held before, changes no other field of the device, and calls the
  position callback once with the position percentage (byte 6), the angle percentage
  (from byte 7) and the new end-position info.
\<close>

theorem position_frame_replaces_end_position_info:
  assumes "startswith (decrypt crypt (bytes_hex byte_array)) (NOTIFICATION_PERCENT c)"
    and "position_callback s"
    and "fromhex (decrypt crypt (bytes_hex byte_array)) = Inr bs"
    and "8 \<le> length bs"
  shows "\<exists>info.
           info = MotionPositionInfo_init (uint (bs ! 4))
                    (int_from_bytes2 (uint (bs ! 6)) (uint (bs ! 7)))
           \<and> notification_callback c crypt byte_array (s\<lparr>end_position_info := old\<rparr>)
               = Inr (s\<lparr>end_position_info := Some info,
                        log := log s @ [PositionCallback (uint (bs ! 6))
                                          (angle_percentage (uint (bs ! 7))) info]\<rparr>)"
proof -
  have "position_callback (s\<lparr>end_position_info := old\<rparr>)"
    using assms(2) by simp
  from notification_callback_position [OF assms(1) this assms(3) assms(4)]
  show ?thesis by simp
qed

theorem position_frame_replaces_end_position_info_witness:
  "startswith (decrypt example_crypt (bytes_hex [0x07, 0x04, 0x04, 0x02, 0x08, 0x00, 0x32, 0x5A]))
     (NOTIFICATION_PERCENT example_const)
   \<and> position_callback (MotionDevice_init\<lparr>position_callback := True\<rparr>)
   \<and> fromhex (decrypt example_crypt (bytes_hex [0x07, 0x04, 0x04, 0x02, 0x08, 0x00, 0x32, 0x5A]))
       = Inr [0x07, 0x04, 0x04, 0x02, 0x08, 0x00, 0x32, 0x5A]
   \<and> notification_callback example_const example_crypt
        [0x07, 0x04, 0x04, 0x02, 0x08, 0x00, 0x32, 0x5A]
        (MotionDevice_init\<lparr>position_callback := True,
           end_position_info := Some \<lparr>UP = False, DOWN = True, FAVORITE = PyInt 0\<rparr>\<rparr>)
      = Inr (MotionDevice_init\<lparr>position_callback := True,
           end_position_info := Some \<lparr>UP = True, DOWN = False, FAVORITE = PyBool True\<rparr>,
           log := [PositionCallback 50 50 \<lparr>UP = True, DOWN = False, FAVORITE = PyBool True\<rparr>]\<rparr>)"
proof -
  have h1: "startswith (decrypt example_crypt (bytes_hex [0x07, 0x04, 0x04, 0x02, 0x08, 0x00, 0x32, 0x5A]))
     (NOTIFICATION_PERCENT example_const)"
    by (simp add: startswith_def example_crypt_def example_const_def bytes_hex_def hex_char_def)
  have h2: "position_callback (MotionDevice_init\<lparr>position_callback := True\<rparr>)"
    by simp
  have h3: "fromhex (decrypt example_crypt (bytes_hex [0x07, 0x04, 0x04, 0x02, 0x08, 0x00, 0x32, 0x5A]))
       = Inr [0x07, 0x04, 0x04, 0x02, 0x08, 0x00, 0x32, 0x5A]"
    by (simp add: example_crypt_def bytes_hex_def hex_char_def hex_digit_def is_space_def)
  have h4: "8 \<le> length [0x07, 0x04, 0x04, 0x02, 0x08, 0x00, 0x32, 0x5A :: 8 word]"
    by simp
  have h5: "angle_percentage 90 = 50"
    by (simp add: angle_percentage_closed)
  from position_frame_replaces_end_position_info [OF h1 h2 h3 h4,
      of "Some \<lparr>UP = False, DOWN = True, FAVORITE = PyInt 0\<rparr>"] h1 h2 h3
  show ?thesis
    by (simp add: h5 MotionDevice_init_def MotionPositionInfo_init_def int_from_bytes2_def
          py_or_def)
qed

subsection \<open>The command dispatcher\<close>

text \<open>One turn of the loop, and the loop once the tries have reached the ceiling.\<close>

lemma replicate_tries:
  fixes n m :: int
  assumes "n < m"
  shows "replicate (nat (m - n)) x = x # replicate (nat (m - (n + 1))) x"
proof -
  have "nat (m - n) = Suc (nat (m - (n + 1)))"
    using assms by linarith
  then show ?thesis by simp
qed

lemma send_loop_step_fail:
  assumes "n < SETTING_MAX_COMMAND_ATTEMPTS c"
    and "current_bleak_client s = Some cl"
    and "fromhex command = Inr bs"
    and "writes (nat n) = Some BleakError"
  shows "send_loop c writes transport command n s =
           send_loop c writes transport command (n + 1) (emit (WriteGattChar bs) s)"
  using assms
  by (subst send_loop.simps) (simp add: is_BleakError_def)

lemma send_loop_step_ok:
  assumes "n < SETTING_MAX_COMMAND_ATTEMPTS c"
    and "current_bleak_client s = Some cl"
    and "fromhex command = Inr bs"
    and "writes (nat n) = None"
  shows "send_loop c writes transport command n s =
           (Inr (PyBool True), emit (WriteGattChar bs) s)"
  using assms
  by (subst send_loop.simps) simp

lemma send_loop_exhausted:
  assumes "\<not> n < SETTING_MAX_COMMAND_ATTEMPTS c"
  shows "send_loop c writes transport command n s = (Inr PyNone, s)"
  using assms
  by (subst send_loop.simps) simp

lemma send_loop_all_fail:
  assumes "current_bleak_client s = Some cl"
    and "fromhex command = Inr bs"
    and "\<forall>k. writes k = Some BleakError"
  shows "send_loop c writes transport command n s =
           (Inr PyNone,
            s\<lparr>log := log s @
                 replicate (nat (SETTING_MAX_COMMAND_ATTEMPTS c - n)) (WriteGattChar bs)\<rparr>)"
  using assms(1)
proof (induction "nat (SETTING_MAX_COMMAND_ATTEMPTS c - n)" arbitrary: n s)
  case 0
  then have "\<not> n < SETTING_MAX_COMMAND_ATTEMPTS c" by simp
  then show ?case using 0 by (simp add: send_loop_exhausted)
next
  case (Suc m)
  then have lt: "n < SETTING_MAX_COMMAND_ATTEMPTS c" by linarith
  have m: "m = nat (SETTING_MAX_COMMAND_ATTEMPTS c - (n + 1))"
    using Suc.hyps(2) by linarith
  have cl: "current_bleak_client (emit (WriteGattChar bs) s) = Some cl"
    using Suc.prems by (simp add: emit_def)
  have "send_loop c writes transport command n s =
          send_loop c writes transport command (n + 1) (emit (WriteGattChar bs) s)"
    using lt Suc.prems assms(2) assms(3) by (intro send_loop_step_fail) simp_all
  also have "\<dots> = (Inr PyNone, (emit (WriteGattChar bs) s)
       \<lparr>log := log (emit (WriteGattChar bs) s) @
          replicate (nat (SETTING_MAX_COMMAND_ATTEMPTS c - (n + 1))) (WriteGattChar bs)\<rparr>)"
    by (rule Suc.hyps(1) [OF m cl])
  finally show ?case
    by (simp add: emit_def replicate_tries [OF lt])
qed

lemma send_loop_success_after:
  assumes "fromhex command = Inr bs"
  shows "0 \<le> n \<Longrightarrow> current_bleak_client s = Some cl
    \<Longrightarrow> \<forall>i<k. writes (nat n + i) = Some BleakError \<Longrightarrow> writes (nat n + k) = None
    \<Longrightarrow> n + int k < SETTING_MAX_COMMAND_ATTEMPTS c
    \<Longrightarrow> send_loop c writes transport command n s =
           (Inr (PyBool True), s\<lparr>log := log s @ replicate (Suc k) (WriteGattChar bs)\<rparr>)"
proof (induction k arbitrary: n s)
  case 0
  then show ?case using assms by (simp add: send_loop_step_ok emit_def)
next
  case (Suc k)
  have lt: "n < SETTING_MAX_COMMAND_ATTEMPTS c" using Suc.prems(5) by linarith
  have w0: "writes (nat n) = Some BleakError"
    using Suc.prems(3) [rule_format, of 0] by simp
  have n1: "nat (n + 1) = Suc (nat n)" using Suc.prems(1) by linarith
  have cl: "current_bleak_client (emit (WriteGattChar bs) s) = Some cl"
    using Suc.prems(2) by (simp add: emit_def)
  have "send_loop c writes transport command n s =
          send_loop c writes transport command (n + 1) (emit (WriteGattChar bs) s)"
    using lt Suc.prems(2) assms w0 by (rule send_loop_step_fail)
  also have "\<dots> = (Inr (PyBool True), (emit (WriteGattChar bs) s)
       \<lparr>log := log (emit (WriteGattChar bs) s) @ replicate (Suc k) (WriteGattChar bs)\<rparr>)"
  proof (rule Suc.IH [OF _ cl])
    show "0 \<le> n + 1" using Suc.prems(1) by simp
    show "\<forall>i<k. writes (nat (n + 1) + i) = Some BleakError"
    proof (intro allI impI)
      fix i assume "i < k"
      then have "writes (nat n + Suc i) = Some BleakError"
        using Suc.prems(3) [rule_format, of "Suc i"] by simp
      then show "writes (nat (n + 1) + i) = Some BleakError" by (simp add: n1)
    qed
    show "writes (nat (n + 1) + k) = None"
      using Suc.prems(4) by (simp add: n1)
    show "n + 1 + int k < SETTING_MAX_COMMAND_ATTEMPTS c"
      using Suc.prems(5) by simp
  qed
  finally show ?case
    by (simp add: emit_def)
qed

text \<open>
  C2. The claim has two halves. The second holds: a write that fails fewer times than the
  ceiling and then succeeds makes \<^verbatim>\<open>_send_command\<close> return \<^verbatim>\<open>True\<close>, with nothing but the
  writes in the log (lemma \<open>send_loop_success_after\<close>). The first does not hold of the
  code. The branch that disconnects and re-raises is taken when
  \<^verbatim>\<open>number_of_tries == SETTING_MAX_COMMAND_ATTEMPTS\<close>, inside a loop that runs only while
  \<^verbatim>\<open>number_of_tries < SETTING_MAX_COMMAND_ATTEMPTS\<close>, so it is never reached: when every write
  fails, the loop ends by its condition and the method returns \<^verbatim>\<open>None\<close>. Evaluated on a
  connected device, for every ceiling \<open>m\<close>: \<open>m\<close> writes, no exception, no disconnect, the
  client and the connection type as they were.
\<close>

theorem send_command_all_writes_fail:
  "send_command (example_const\<lparr>SETTING_MAX_COMMAND_ATTEMPTS := m\<rparr>) example_crypt
     (\<lambda>k. Some BleakError) None ''03020301''
     (MotionDevice_init\<lparr>current_bleak_client := Some \<lparr>is_connected = True\<rparr>,
        connection_type := CONNECTED, connection_callback := True\<rparr>)
   = (Inr PyNone,
      MotionDevice_init\<lparr>current_bleak_client := Some \<lparr>is_connected = True\<rparr>,
        connection_type := CONNECTED, connection_callback := True,
        log := replicate (nat m) (WriteGattChar [3, 2, 3, 1, 1, 2, 3, 4, 5, 6, 7, 8])\<rparr>)"
proof -
  have hex: "fromhex (encrypt example_crypt (''03020301'' @ get_time example_crypt))
               = Inr [3, 2, 3, 1, 1, 2, 3, 4, 5, 6, 7, 8]"
    by (simp add: example_crypt_def hex_digit_def is_space_def)
  have cl: "current_bleak_client
              (MotionDevice_init\<lparr>current_bleak_client := Some \<lparr>is_connected = True\<rparr>,
                 connection_type := CONNECTED, connection_callback := True\<rparr>)
            = Some \<lparr>is_connected = True\<rparr>"
    by simp
  have "\<forall>k. (\<lambda>k. Some BleakError) k = Some BleakError"
    by simp
  from send_loop_all_fail [OF cl hex this, of "example_const\<lparr>SETTING_MAX_COMMAND_ATTEMPTS := m\<rparr>" None 0]
  show ?thesis
    by (simp add: send_command_def MotionDevice_init_def)
qed

subsection \<open>The frame of the percentage command\<close>

lemma below_16_cases:
  fixes n :: nat
  assumes "n < 16"
  shows "n \<in> {0, 1, 2, 3, 4, 5, 6, 7, 8, 9, 10, 11, 12, 13, 14, 15}"
proof -
  have "n \<in> {0..<16}" using assms by simp
  then show ?thesis by (auto simp: atLeastLessThan_nat_numeral)
qed

lemma hex_digit_hex_char: "n < 16 \<Longrightarrow> hex_digit (hex_char n) = Some n"
  using below_16_cases [of n] by (auto simp: hex_char_def hex_digit_def)

lemma hex_char_not_sign_or_space:
  "n < 16 \<Longrightarrow> hex_char n \<noteq> CHR ''+'' \<and> hex_char n \<noteq> CHR ''-'' \<and> \<not> is_space (hex_char n)"
  using below_16_cases [of n] by (auto simp: hex_char_def is_space_def)

lemma hex_digits_byte:
  assumes "n < 256"
  shows "zfill 2 (hex_digits n) = [hex_char (n div 16), hex_char (n mod 16)]"
proof (cases "n < 16")
  case True
  then have "hex_digits n = [hex_char n]" by (subst hex_digits.simps) simp
  moreover have "hex_char (n div 16) = CHR ''0''" using True by (simp add: hex_char_def)
  ultimately show ?thesis using True hex_char_not_sign_or_space [of n]
    by (simp add: zfill_def)
next
  case False
  then have "n div 16 < 16" using assms by simp
  then have "hex_digits (n div 16) = [hex_char (n div 16)]" by (subst hex_digits.simps) simp
  then have "hex_digits n = [hex_char (n div 16), hex_char (n mod 16)]"
    using False by (subst hex_digits.simps) simp
  then show ?thesis by (simp add: zfill_def)
qed

lemma py_hex_two_digits:
  assumes "0 \<le> p" "p < 256"
  shows "zfill 2 (drop 2 (py_hex p)) = [hex_char (nat p div 16), hex_char (nat p mod 16)]"
  using assms by (simp add: py_hex_def hex_digits_byte)

lemma fromhex_two_digits:
  assumes "n < 256"
  shows "fromhex [hex_char (n div 16), hex_char (n mod 16)] = Inr [of_nat n]"
proof -
  have a: "n div 16 < 16" "n mod 16 < 16" using assms by simp_all
  show ?thesis
    using hex_digit_hex_char [OF a(1)] hex_digit_hex_char [OF a(2)]
      hex_char_not_sign_or_space [OF a(1)]
    by simp
qed

text \<open>
  The body of \<^verbatim>\<open>percentage\<close>, from the value \<open>p\<close> bound to its parameter: for \<open>p\<close> from 0 to
  100 it sends the frame made of the value of \<^verbatim>\<open>MotionCommandType.PERCENT\<close>, exactly two
  hex digits that read back as the byte \<open>p\<close>, and \<^verbatim>\<open>00\<close>; for every other \<open>p\<close> the assertion
  fails and the device and the log are as before.
\<close>

lemma percentage_frame:
  "percentage c crypt writes transport p s =
     (if 0 \<le> p \<and> p \<le> 100
      then send_command c crypt writes transport
             (COMMAND_PERCENT c @ [hex_char (nat p div 16), hex_char (nat p mod 16)] @ ''00'') s
      else (Inl AssertionError, s))
   \<and> (0 \<le> p \<and> p \<le> 100
        \<longrightarrow> fromhex [hex_char (nat p div 16), hex_char (nat p mod 16)] = Inr [of_int p])"
proof (cases "0 \<le> p \<and> p \<le> 100")
  case True
  then have "zfill 2 (drop 2 (py_hex p)) = [hex_char (nat p div 16), hex_char (nat p mod 16)]"
    by (intro py_hex_two_digits) simp_all
  moreover have "fromhex [hex_char (nat p div 16), hex_char (nat p mod 16)] = Inr [of_nat (nat p)]"
  proof (rule fromhex_two_digits)
    show "nat p < 256" using True by linarith
  qed
  ultimately show ?thesis
    using True by (simp add: percentage_def)
next
  case False
  then show ?thesis
    by (auto simp: percentage_def)
qed

text \<open>A call that gives the percentage by keyword binds it to the parameter.\<close>

lemma percentage_of_keyword:
  "percentage_of ([], [(''percentage'', PyInt p)]) = Inr p"
  by (simp add: percentage_of_def bind_function_def)

text \<open>
  C10. The claim is that the percentage command, given an integer \<open>p\<close> from 0 to 100,
  builds the frame of \<open>p\<close>, and fails an assertion for every other \<open>p\<close>. The body of the
  method does so (lemma \<open>percentage_frame\<close>), and its signature
  \<^verbatim>\<open>percentage(self, percentage: int, ignore_end_positions_not_set: bool = False)\<close> takes
  \<open>p\<close> as its first argument. But the method is wrapped by \<^verbatim>\<open>requires_end_positions\<close>,
  whose wrapper takes the first positional argument as \<^verbatim>\<open>ignore_end_positions_not_set\<close>
  and passes on the rest. On a connected device whose end positions are set:
  \<^verbatim>\<open>percentage(50)\<close> calls the body without a percentage, which raises \<^verbatim>\<open>TypeError\<close>, and
  nothing is written; \<^verbatim>\<open>percentage(150)\<close> raises \<^verbatim>\<open>TypeError\<close> as well, not
  \<^verbatim>\<open>AssertionError\<close>; and \<^verbatim>\<open>percentage(50, True)\<close> binds \<^verbatim>\<open>True\<close> to the percentage and
  writes the frame of 1.
\<close>

theorem percentage_positional_call:
  "fst (command_start example_const example_crypt (\<lambda>k. None) None 1000 1 Percentage
          ([PyInt 50], [])
          (MotionDevice_init\<lparr>current_bleak_client := Some \<lparr>is_connected = True\<rparr>,
             end_position_info := Some \<lparr>UP = True, DOWN = True, FAVORITE = PyInt 0\<rparr>\<rparr>))
     = Done (Inl TypeError)
   \<and> log (snd (command_start example_const example_crypt (\<lambda>k. None) None 1000 1 Percentage
          ([PyInt 50], [])
          (MotionDevice_init\<lparr>current_bleak_client := Some \<lparr>is_connected = True\<rparr>,
             end_position_info := Some \<lparr>UP = True, DOWN = True, FAVORITE = PyInt 0\<rparr>\<rparr>)))
     = [TimerArm (LoopTimer 0) 15]
   \<and> fst (command_start example_const example_crypt (\<lambda>k. None) None 1000 1 Percentage
          ([PyInt 150], [])
          (MotionDevice_init\<lparr>current_bleak_client := Some \<lparr>is_connected = True\<rparr>,
             end_position_info := Some \<lparr>UP = True, DOWN = True, FAVORITE = PyInt 0\<rparr>\<rparr>))
     = Done (Inl TypeError)
   \<and> fst (command_start example_const example_crypt (\<lambda>k. None) None 1000 1 Percentage
          ([PyInt 50, PyBool True], [])
          (MotionDevice_init\<lparr>current_bleak_client := Some \<lparr>is_connected = True\<rparr>,
             end_position_info := Some \<lparr>UP = True, DOWN = True, FAVORITE = PyInt 0\<rparr>\<rparr>))
     = Done (Inr (PyBool True))
   \<and> log (snd (command_start example_const example_crypt (\<lambda>k. None) None 1000 1 Percentage
          ([PyInt 50, PyBool True], [])
          (MotionDevice_init\<lparr>current_bleak_client := Some \<lparr>is_connected = True\<rparr>,
             end_position_info := Some \<lparr>UP = True, DOWN = True, FAVORITE = PyInt 0\<rparr>\<rparr>)))
     = [TimerArm (LoopTimer 0) 15,
        WriteGattChar [0x05, 0x02, 0x04, 0x40, 1, 0x00, 1, 2, 3, 4, 5, 6, 7, 8]]"
  by (simp add: command_start_def requires_connection_start_def connect_start_def
        device_is_connected_def refresh_disconnect_timer_def arm_disconnect_timer_def
        cancel_disconnect_timer_def new_timer_def timeout_or_default_def after_connect_def
        guarded_def requires_end_positions_def bind_wrapper_def percentage_of_def
        bind_function_def percentage_def py_hex_def hex_digits.simps zfill_def
        send_command_def send_loop.simps emit_def Let_def hex_char_def hex_digit_def
        is_space_def example_const_def example_crypt_def MotionDevice_init_def)

subsection \<open>The end-position guard\<close>

text \<open>What the bodies do with a call that leaves them no argument but the percentage.\<close>

lemma keyword_call_bodies:
  "command_body c crypt writes transport Open ([], []) s =
     send_command c crypt writes transport (COMMAND_OPEN c) s"
  "command_body c crypt writes transport Close ([], []) s =
     send_command c crypt writes transport (COMMAND_CLOSE c) s"
  "command_body c crypt writes transport Stop ([], []) s =
     send_command c crypt writes transport (COMMAND_STOP c) s"
  "command_body c crypt writes transport OpenTilt ([], []) s =
     send_command c crypt writes transport (COMMAND_ANGLE c @ ''0000'') s"
  "command_body c crypt writes transport CloseTilt ([], []) s =
     send_command c crypt writes transport (COMMAND_ANGLE c @ ''00b4'') s"
  "command_body c crypt writes transport Percentage ([], [(''percentage'', PyInt p)]) s =
     percentage c crypt writes transport p s"
  "command_body c crypt writes transport PercentageTilt ([], [(''percentage'', PyInt p)]) s =
     percentage_tilt c crypt writes transport p s"
  by (simp_all add: bind_function_def percentage_of_def py_hex_def hex_digits.simps zfill_def
        hex_char_def)

text \<open>
  The guard on a call without positional arguments: the flag is the keyword
  \<^verbatim>\<open>ignore_end_positions_not_set\<close>, or \<^verbatim>\<open>False\<close> when the call does not give it.
\<close>

lemma guarded_keyword_call:
  assumes "cmd \<noteq> Favorite"
  shows "guarded c crypt writes transport cmd ([], kwargs) s =
     (if (\<exists>info. end_position_info s = Some info \<and> \<not> UP info)
          \<and> \<not> truthy (keyword_flag kwargs)
      then (Inl NoEndPositionsException, s)
      else command_body c crypt writes transport cmd ([], without_flag kwargs) s)"
  using assms by (auto simp: guarded_def requires_end_positions_def bind_wrapper_def)

text \<open>
  C7, as stated: a movement command issued while the end-position info is known and its
  \<^verbatim>\<open>UP\<close> flag is false raises the calibration-required error, unless the bypass flag is
  set. It fails when the connection coordinator does not answer that the device is
  ready, because \<^verbatim>\<open>requires_connection\<close> returns \<^verbatim>\<open>False\<close> before the guard is reached:
  \<^verbatim>\<open>open()\<close> on a device that is not connected, with \<^verbatim>\<open>UP\<close> false, awaits the connection
  task, and when \<^verbatim>\<open>disconnect()\<close> cancels that task the command returns \<^verbatim>\<open>False\<close> and raises
  nothing.
\<close>

theorem doomed_command_not_ready_counterexample:
  "fst (command_start example_const example_crypt (\<lambda>k. None) None 1000 1 Open ([], [])
          (MotionDevice_init\<lparr>end_position_info :=
             Some \<lparr>UP = False, DOWN = True, FAVORITE = PyInt 0\<rparr>\<rparr>))
     = Await 0 1000
   \<and> fst (command_resume example_const example_crypt (\<lambda>k. None) None 0 1000 Open ([], [])
          (snd (disconnect None
             (snd (command_start example_const example_crypt (\<lambda>k. None) None 1000 1 Open ([], [])
                (MotionDevice_init\<lparr>end_position_info :=
                   Some \<lparr>UP = False, DOWN = True, FAVORITE = PyInt 0\<rparr>\<rparr>))))))
     = Some (Inr (PyBool False))"
  by (simp add: command_start_def requires_connection_start_def connect_start_def
        device_is_connected_def connect_if_not_connecting_start_def command_resume_def
        requires_connection_resume_def connect_if_not_connecting_resume_def after_connect_def
        disconnect_def cancel_task_def cancel_disconnect_timer_def set_connection_def
        emit_def Let_def MotionDevice_init_def)

text \<open>
  C7, amended: for every movement command (\<^verbatim>\<open>open\<close>, \<^verbatim>\<open>close\<close>, \<^verbatim>\<open>stop\<close>, \<^verbatim>\<open>percentage\<close> and
  the tilt variants) called with keyword arguments only, both when the call is resumed
  after the connection task and when the device is connected already. When the
  coordinator answers that the device is not ready, the command returns \<^verbatim>\<open>False\<close> and the
  guard is not evaluated. When it is ready, the end-position info is known, its \<^verbatim>\<open>UP\<close>
  flag is false and the keyword \<^verbatim>\<open>ignore_end_positions_not_set\<close> is absent or falsy, the
  command raises \<^verbatim>\<open>NoEndPositionsException\<close> and the device and the log are as the
  coordinator left them, so the command was not sent. When the keyword is truthy, or
  the end-position info is unknown (\<^verbatim>\<open>None\<close>), or \<^verbatim>\<open>UP\<close> is true, the body of the command
  runs with the remaining keywords. (What a call with positional arguments does is
  not part of this statement.)
\<close>

theorem movement_command_guard:
  assumes "cmd \<noteq> Favorite"
  shows "(connect_if_not_connecting_resume h t s = (Some (Inr ready), s1) \<longrightarrow>
            command_resume c crypt writes transport h t cmd ([], kwargs) s =
              (if \<not> ready then (Some (Inr (PyBool False)), s1)
               else if (\<exists>info. end_position_info s1 = Some info \<and> \<not> UP info)
                        \<and> \<not> truthy (keyword_flag kwargs)
               then (Some (Inl NoEndPositionsException), s1)
               else (case command_body c crypt writes transport cmd ([], without_flag kwargs) s1 of
                       (r, s2) \<Rightarrow> (Some r, s2))))
       \<and> (device_is_connected s \<and> refresh_disconnect_timer c now_ms None False s = Inr s1 \<longrightarrow>
            command_start c crypt writes transport time_ns now_ms cmd ([], kwargs) s =
              (if (\<exists>info. end_position_info s1 = Some info \<and> \<not> UP info)
                   \<and> \<not> truthy (keyword_flag kwargs)
               then (Done (Inl NoEndPositionsException), s1)
               else (case command_body c crypt writes transport cmd ([], without_flag kwargs) s1 of
                       (r, s2) \<Rightarrow> (Done r, s2))))"
proof (intro conjI impI)
  assume "connect_if_not_connecting_resume h t s = (Some (Inr ready), s1)"
  then show "command_resume c crypt writes transport h t cmd ([], kwargs) s =
              (if \<not> ready then (Some (Inr (PyBool False)), s1)
               else if (\<exists>info. end_position_info s1 = Some info \<and> \<not> UP info)
                        \<and> \<not> truthy (keyword_flag kwargs)
               then (Some (Inl NoEndPositionsException), s1)
               else (case command_body c crypt writes transport cmd ([], without_flag kwargs) s1 of
                       (r, s2) \<Rightarrow> (Some r, s2)))"
    by (auto simp: command_resume_def requires_connection_resume_def after_connect_def
          guarded_keyword_call [OF assms])
next
  assume "device_is_connected s \<and> refresh_disconnect_timer c now_ms None False s = Inr s1"
  then show "command_start c crypt writes transport time_ns now_ms cmd ([], kwargs) s =
              (if (\<exists>info. end_position_info s1 = Some info \<and> \<not> UP info)
                   \<and> \<not> truthy (keyword_flag kwargs)
               then (Done (Inl NoEndPositionsException), s1)
               else (case command_body c crypt writes transport cmd ([], without_flag kwargs) s1 of
                       (r, s2) \<Rightarrow> (Done r, s2)))"
    by (auto simp: command_start_def requires_connection_start_def connect_start_def
          after_connect_def guarded_keyword_call [OF assms])
qed

theorem movement_command_guard_witness:
  "Open \<noteq> Favorite
   \<and> connect_if_not_connecting_resume 0 1000
        (MotionDevice_init\<lparr>end_position_info := Some \<lparr>UP = False, DOWN = True, FAVORITE = PyInt 0\<rparr>,
           current_bleak_client := Some \<lparr>is_connected = True\<rparr>, connection_type := CONNECTED,
           connection_task := Some 0, last_connection_caller_time := Some 1000,
           tasks := (\<lambda>h. Returned True), next_handle := 1\<rparr>)
      = (Some (Inr True),
         MotionDevice_init\<lparr>end_position_info := Some \<lparr>UP = False, DOWN = True, FAVORITE = PyInt 0\<rparr>,
           current_bleak_client := Some \<lparr>is_connected = True\<rparr>, connection_type := CONNECTED,
           connection_task := None, last_connection_caller_time := Some 1000,
           tasks := (\<lambda>h. Returned True), next_handle := 1\<rparr>)
   \<and> command_resume example_const example_crypt (\<lambda>k. None) None 0 1000 Open ([], [])
        (MotionDevice_init\<lparr>end_position_info := Some \<lparr>UP = False, DOWN = True, FAVORITE = PyInt 0\<rparr>,
           current_bleak_client := Some \<lparr>is_connected = True\<rparr>, connection_type := CONNECTED,
           connection_task := Some 0, last_connection_caller_time := Some 1000,
           tasks := (\<lambda>h. Returned True), next_handle := 1\<rparr>)
      = (Some (Inl NoEndPositionsException),
         MotionDevice_init\<lparr>end_position_info := Some \<lparr>UP = False, DOWN = True, FAVORITE = PyInt 0\<rparr>,
           current_bleak_client := Some \<lparr>is_connected = True\<rparr>, connection_type := CONNECTED,
           connection_task := None, last_connection_caller_time := Some 1000,
           tasks := (\<lambda>h. Returned True), next_handle := 1\<rparr>)
   \<and> device_is_connected
        (MotionDevice_init\<lparr>end_position_info := Some \<lparr>UP = False, DOWN = True, FAVORITE = PyInt 0\<rparr>,
           current_bleak_client := Some \<lparr>is_connected = True\<rparr>, connection_type := CONNECTED\<rparr>)
   \<and> refresh_disconnect_timer example_const 1 None False
        (MotionDevice_init\<lparr>end_position_info := Some \<lparr>UP = False, DOWN = True, FAVORITE = PyInt 0\<rparr>,
           current_bleak_client := Some \<lparr>is_connected = True\<rparr>, connection_type := CONNECTED\<rparr>)
      = Inr (MotionDevice_init\<lparr>end_position_info := Some \<lparr>UP = False, DOWN = True, FAVORITE = PyInt 0\<rparr>,
           current_bleak_client := Some \<lparr>is_connected = True\<rparr>, connection_type := CONNECTED,
           disconnect_time := Some 15001, disconnect_timer := Some (LoopTimer 0),
           next_handle := 1, log := [TimerArm (LoopTimer 0) 15]\<rparr>)
   \<and> command_start example_const example_crypt (\<lambda>k. None) None 1000 1 Open
        ([], [(''ignore_end_positions_not_set'', PyBool True)])
        (MotionDevice_init\<lparr>end_position_info := Some \<lparr>UP = False, DOWN = True, FAVORITE = PyInt 0\<rparr>,
           current_bleak_client := Some \<lparr>is_connected = True\<rparr>, connection_type := CONNECTED\<rparr>)
      = (Done (Inr (PyBool True)),
         MotionDevice_init\<lparr>end_position_info := Some \<lparr>UP = False, DOWN = True, FAVORITE = PyInt 0\<rparr>,
           current_bleak_client := Some \<lparr>is_connected = True\<rparr>, connection_type := CONNECTED,
           disconnect_time := Some 15001, disconnect_timer := Some (LoopTimer 0),
           next_handle := 1,
           log := [TimerArm (LoopTimer 0) 15,
                   WriteGattChar [3, 2, 3, 1, 1, 2, 3, 4, 5, 6, 7, 8]]\<rparr>)"
proof -
  define sr where "sr = MotionDevice_init\<lparr>end_position_info := Some \<lparr>UP = False, DOWN = True, FAVORITE = PyInt 0\<rparr>,
           current_bleak_client := Some \<lparr>is_connected = True\<rparr>, connection_type := CONNECTED,
           connection_task := Some 0, last_connection_caller_time := Some 1000,
           tasks := (\<lambda>h. Returned True), next_handle := 1\<rparr>"
  define sc where "sc = MotionDevice_init\<lparr>end_position_info := Some \<lparr>UP = False, DOWN = True, FAVORITE = PyInt 0\<rparr>,
           current_bleak_client := Some \<lparr>is_connected = True\<rparr>, connection_type := CONNECTED\<rparr>"
  have ne: "Open \<noteq> Favorite" by simp
  have r: "connect_if_not_connecting_resume 0 1000 sr
             = (Some (Inr True), sr\<lparr>connection_task := None\<rparr>)"
    by (simp add: connect_if_not_connecting_resume_def sr_def MotionDevice_init_def)
  have d: "device_is_connected sc"
    by (simp add: device_is_connected_def sc_def MotionDevice_init_def)
  have f: "refresh_disconnect_timer example_const 1 None False sc
             = Inr (sc\<lparr>disconnect_time := Some 15001, disconnect_timer := Some (LoopTimer 0),
                  next_handle := 1, log := [TimerArm (LoopTimer 0) 15]\<rparr>)"
    by (simp add: refresh_disconnect_timer_def arm_disconnect_timer_def
          cancel_disconnect_timer_def new_timer_def timeout_or_default_def emit_def Let_def
          example_const_def sc_def MotionDevice_init_def)
  have b: "send_command example_const example_crypt (\<lambda>k. None) None (COMMAND_OPEN example_const)
             (sc\<lparr>disconnect_time := Some 15001, disconnect_timer := Some (LoopTimer 0),
                  next_handle := 1, log := [TimerArm (LoopTimer 0) 15]\<rparr>)
           = (Inr (PyBool True),
              sc\<lparr>disconnect_time := Some 15001, disconnect_timer := Some (LoopTimer 0),
                  next_handle := 1,
                  log := [TimerArm (LoopTimer 0) 15,
                          WriteGattChar [3, 2, 3, 1, 1, 2, 3, 4, 5, 6, 7, 8]]\<rparr>)"
    by (simp add: send_command_def send_loop.simps emit_def
          hex_digit_def is_space_def example_const_def example_crypt_def sc_def
          MotionDevice_init_def)
  from movement_command_guard [OF ne, THEN conjunct1, rule_format, OF r,
      of example_const example_crypt "\<lambda>k. None" None "[]"]
  have w1: "command_resume example_const example_crypt (\<lambda>k. None) None 0 1000 Open ([], []) sr
              = (Some (Inl NoEndPositionsException), sr\<lparr>connection_task := None\<rparr>)"
    by (simp add: keyword_flag_def sr_def MotionDevice_init_def)
  from movement_command_guard [OF ne, THEN conjunct2, rule_format, OF conjI [OF d f],
      of example_crypt "\<lambda>k. None" None 1000 "[(''ignore_end_positions_not_set'', PyBool True)]"]
  have w2: "command_start example_const example_crypt (\<lambda>k. None) None 1000 1 Open
              ([], [(''ignore_end_positions_not_set'', PyBool True)]) sc
            = (Done (Inr (PyBool True)),
               sc\<lparr>disconnect_time := Some 15001, disconnect_timer := Some (LoopTimer 0),
                  next_handle := 1,
                  log := [TimerArm (LoopTimer 0) 15,
                          WriteGattChar [3, 2, 3, 1, 1, 2, 3, 4, 5, 6, 7, 8]]\<rparr>)"
    using b
    by (simp add: keyword_flag_def without_flag_def keyword_call_bodies
          del: command_body.simps)
  from ne r w1 d f w2 show ?thesis
    unfolding sr_def sc_def by simp
qed

subsection \<open>The order of connection and guard\<close>

text \<open>
  C3, as stated: the guard is evaluated before the connection coordinator is invoked, so
  that a command that the guard rejects never starts a connection attempt. In the code
  \<^verbatim>\<open>@requires_connection\<close> is the outer decorator of every command, so \<^verbatim>\<open>connect()\<close> runs
  first. On a new device whose end-position info says that \<^verbatim>\<open>UP\<close> is not set, \<^verbatim>\<open>open()\<close>
  without bypass is rejected by the guard, and yet calling it creates the connection task
  and waits for it.
\<close>

theorem doomed_command_connects_counterexample:
  "guarded example_const example_crypt (\<lambda>k. None) None Open ([], [])
        (MotionDevice_init\<lparr>end_position_info := Some \<lparr>UP = False, DOWN = True, FAVORITE = PyInt 0\<rparr>\<rparr>)
      = (Inl NoEndPositionsException,
         MotionDevice_init\<lparr>end_position_info := Some \<lparr>UP = False, DOWN = True, FAVORITE = PyInt 0\<rparr>\<rparr>)
   \<and> fst (command_start example_const example_crypt (\<lambda>k. None) None 1000 1 Open ([], [])
        (MotionDevice_init\<lparr>end_position_info := Some \<lparr>UP = False, DOWN = True, FAVORITE = PyInt 0\<rparr>\<rparr>))
      = Await 0 1000
   \<and> log (snd (command_start example_const example_crypt (\<lambda>k. None) None 1000 1 Open ([], [])
        (MotionDevice_init\<lparr>end_position_info := Some \<lparr>UP = False, DOWN = True, FAVORITE = PyInt 0\<rparr>\<rparr>)))
      = [TaskCreate 0 False]
   \<and> connection_task (snd (command_start example_const example_crypt (\<lambda>k. None) None 1000 1 Open ([], [])
        (MotionDevice_init\<lparr>end_position_info := Some \<lparr>UP = False, DOWN = True, FAVORITE = PyInt 0\<rparr>\<rparr>)))
      = Some 0"
  by (simp add: guarded_def requires_end_positions_def bind_wrapper_def keyword_flag_def
        command_start_def requires_connection_start_def connect_start_def
        device_is_connected_def connect_if_not_connecting_start_def emit_def Let_def
        MotionDevice_init_def)

lemma connect_if_not_connecting_start_fields:
  "\<exists>h s'. connect_if_not_connecting_start time_ns s = (Await h time_ns, s')
     \<and> connection_task s' = Some h
     \<and> last_connection_caller_time s' = Some time_ns
     \<and> end_position_info s' = end_position_info s
     \<and> log s' = log s @ (if connection_task s = None then [TaskCreate h (ha_create_task s)] else [])"
  by (cases "connection_task s")
     (simp_all add: connect_if_not_connecting_start_def emit_def Let_def)

text \<open>
  C3, amended: for every guarded command called on a device that is not connected, the
  connection coordinator is invoked before the guard. The call records its caller time
  and awaits the connection task, which it creates when none is recorded, whatever the
  end-position info and the arguments of the call are. The guard is evaluated only when
  the call is resumed and the coordinator answers that the device is ready; when it
  answers that it is not, the command returns \<^verbatim>\<open>False\<close> and the guard is not evaluated.
\<close>

theorem connection_before_guard:
  assumes "\<not> device_is_connected s"
  shows "(\<exists>h s'. command_start c crypt writes transport time_ns now_ms cmd call s
                  = (Await h time_ns, s')
            \<and> connection_task s' = Some h
            \<and> last_connection_caller_time s' = Some time_ns
            \<and> end_position_info s' = end_position_info s
            \<and> log s' = log s @ (if connection_task s = None
                                then [TaskCreate h (ha_create_task s)] else []))
         \<and> command_resume c crypt writes transport h t cmd call s2 =
             (case connect_if_not_connecting_resume h t s2 of
                (None, s3) \<Rightarrow> (None, s3)
              | (Some (Inl e), s3) \<Rightarrow> (Some (Inl e), s3)
              | (Some (Inr ready), s3) \<Rightarrow>
                  if ready
                  then (case guarded c crypt writes transport cmd call s3 of
                          (r, s4) \<Rightarrow> (Some r, s4))
                  else (Some (Inr (PyBool False)), s3))"
proof -
  have "command_start c crypt writes transport time_ns now_ms cmd call s =
          (case connect_if_not_connecting_start time_ns s of
             (Await h t, s1) \<Rightarrow> (Await h t, s1)
           | (Done r, s1) \<Rightarrow>
               (case after_connect (guarded c crypt writes transport cmd call) r s1 of
                  (r', s2) \<Rightarrow> (Done r', s2)))"
    using assms by (simp add: command_start_def requires_connection_start_def connect_start_def)
  moreover obtain h0 s0 where "connect_if_not_connecting_start time_ns s = (Await h0 time_ns, s0)"
     "connection_task s0 = Some h0" "last_connection_caller_time s0 = Some time_ns"
     "end_position_info s0 = end_position_info s"
     "log s0 = log s @ (if connection_task s = None then [TaskCreate h0 (ha_create_task s)] else [])"
    using connect_if_not_connecting_start_fields [of time_ns s] by blast
  ultimately have first: "\<exists>h s'. command_start c crypt writes transport time_ns now_ms cmd call s
                  = (Await h time_ns, s')
            \<and> connection_task s' = Some h
            \<and> last_connection_caller_time s' = Some time_ns
            \<and> end_position_info s' = end_position_info s
            \<and> log s' = log s @ (if connection_task s = None
                                then [TaskCreate h (ha_create_task s)] else [])"
    by simp
  have second: "command_resume c crypt writes transport h t cmd call s2 =
             (case connect_if_not_connecting_resume h t s2 of
                (None, s3) \<Rightarrow> (None, s3)
              | (Some (Inl e), s3) \<Rightarrow> (Some (Inl e), s3)
              | (Some (Inr ready), s3) \<Rightarrow>
                  if ready
                  then (case guarded c crypt writes transport cmd call s3 of
                          (r, s4) \<Rightarrow> (Some r, s4))
                  else (Some (Inr (PyBool False)), s3))"
    by (simp add: command_resume_def requires_connection_resume_def after_connect_def
          split: prod.splits option.splits sum.splits)
  from first second show ?thesis by (rule conjI)
qed

theorem connection_before_guard_witness:
  "\<not> device_is_connected
       (MotionDevice_init\<lparr>end_position_info :=
          Some \<lparr>UP = False, DOWN = True, FAVORITE = PyInt 0\<rparr>\<rparr>)
   \<and> (\<exists>h s'. command_start example_const example_crypt (\<lambda>k. None) None 1000 1 Open ([], [])
                 (MotionDevice_init\<lparr>end_position_info :=
                    Some \<lparr>UP = False, DOWN = True, FAVORITE = PyInt 0\<rparr>\<rparr>)
               = (Await h 1000, s')
          \<and> connection_task s' = Some h
          \<and> end_position_info s' = Some \<lparr>UP = False, DOWN = True, FAVORITE = PyInt 0\<rparr>
          \<and> log s' = [TaskCreate h False])"
proof -
  have n: "\<not> device_is_connected
       (MotionDevice_init\<lparr>end_position_info :=
          Some \<lparr>UP = False, DOWN = True, FAVORITE = PyInt 0\<rparr>\<rparr>)"
    by (simp add: device_is_connected_def MotionDevice_init_def)
  from connection_before_guard [OF n, of example_const example_crypt "\<lambda>k. None" None 1000 1
      Open "([], [])" 0 0 MotionDevice_init, THEN conjunct1] n
  show ?thesis
    by (auto simp: MotionDevice_init_def)
qed


subsection \<open>Coalesced connection requests\<close>

text \<open>
  Callers that arrive while a task is recorded all await that task; the first caller on a
  device without a task creates it.
\<close>

lemma enter_all_joining:
  assumes "connection_task s = Some h"
  shows "enter_all ts s =
           (map (Await h) ts,
            s\<lparr>last_connection_caller_time :=
                 (if ts = [] then last_connection_caller_time s else Some (last ts))\<rparr>)"
  using assms
proof (induction ts arbitrary: s)
  case Nil
  then show ?case by simp
next
  case (Cons t ts)
  have "connect_if_not_connecting_start t s =
          (Await h t, s\<lparr>last_connection_caller_time := Some t\<rparr>)"
    using Cons.prems by (simp add: connect_if_not_connecting_start_def)
  moreover have "connection_task (s\<lparr>last_connection_caller_time := Some t\<rparr>) = Some h"
    using Cons.prems by simp
  ultimately show ?case
    using Cons.IH [of "s\<lparr>last_connection_caller_time := Some t\<rparr>"] by simp
qed

lemma enter_all_first:
  assumes "connection_task s = None" and "ts \<noteq> []"
  shows "enter_all ts s =
           (map (Await (next_handle s)) ts,
            s\<lparr>last_connection_caller_time := Some (last ts),
              connection_task := Some (next_handle s),
              tasks := (tasks s)(next_handle s := Pending),
              next_handle := Suc (next_handle s),
              log := log s @ [TaskCreate (next_handle s) (ha_create_task s)]\<rparr>)"
proof -
  obtain t rest where ts: "ts = t # rest" using assms(2) by (cases ts) auto
  define s1 where "s1 = s\<lparr>last_connection_caller_time := Some t,
              tasks := (tasks s)(next_handle s := Pending),
              next_handle := Suc (next_handle s),
              log := log s @ [TaskCreate (next_handle s) (ha_create_task s)],
              connection_task := Some (next_handle s)\<rparr>"
  have st: "connect_if_not_connecting_start t s = (Await (next_handle s) t, s1)"
    using assms(1) by (simp add: connect_if_not_connecting_start_def emit_def Let_def s1_def)
  have "connection_task s1 = Some (next_handle s)" by (simp add: s1_def)
  from enter_all_joining [OF this, of rest] st show ?thesis
    by (simp add: ts s1_def)
qed

lemma resume_all_success:
  assumes "tasks s h = Returned True"
  shows "fst (resume_all (map (Await h) ts) s) =
           map (\<lambda>t. Some (Inr (last_connection_caller_time s = Some t))) ts"
  using assms
proof (induction ts arbitrary: s)
  case Nil
  then show ?case by simp
next
  case (Cons t ts)
  have r: "connect_if_not_connecting_resume h t s =
          (Some (Inr (last_connection_caller_time s = Some t)), s\<lparr>connection_task := None\<rparr>)"
    using Cons.prems by (simp add: connect_if_not_connecting_resume_def Let_def)
  have "tasks (s\<lparr>connection_task := None\<rparr>) h = Returned True"
    using Cons.prems by simp
  from Cons.IH [OF this] r show ?case
    by (simp add: case_prod_unfold)
qed

text \<open>
  For every non-empty sequence of callers that call \<^verbatim>\<open>connect()\<close> on a device that is not
  connected and has no task recorded: one task is created, every caller awaits it, and
  when it returns \<^verbatim>\<open>True\<close> a caller returns \<^verbatim>\<open>True\<close> exactly when its caller time equals
  the one recorded last. When the caller times are pairwise distinct, that is the last
  caller alone.
\<close>

lemma coalesced_connect:
  assumes "connection_task s = None" and "ts \<noteq> []"
  shows "fst (enter_all ts s) = map (Await (next_handle s)) ts"
    and "log (snd (enter_all ts s)) = log s @ [TaskCreate (next_handle s) (ha_create_task s)]"
    and "fst (resume_all (fst (enter_all ts s))
               (task_finishes (next_handle s) (Returned True) (snd (enter_all ts s))))
         = map (\<lambda>t. Some (Inr (t = last ts))) ts"
proof -
  note e = enter_all_first [OF assms]
  show "fst (enter_all ts s) = map (Await (next_handle s)) ts" by (simp add: e)
  show "log (snd (enter_all ts s)) = log s @ [TaskCreate (next_handle s) (ha_create_task s)]"
    by (simp add: e)
  have "tasks (task_finishes (next_handle s) (Returned True) (snd (enter_all ts s))) (next_handle s)
          = Returned True"
    by (simp add: task_finishes_def)
  from resume_all_success [OF this, of ts]
  show "fst (resume_all (fst (enter_all ts s))
               (task_finishes (next_handle s) (Returned True) (snd (enter_all ts s))))
         = map (\<lambda>t. Some (Inr (t = last ts))) ts"
    by (simp add: e task_finishes_def eq_commute)
qed

lemma coalesced_connect_distinct:
  assumes "connection_task s = None" and "distinct (ts @ [t])"
  shows "fst (resume_all (fst (enter_all (ts @ [t]) s))
               (task_finishes (next_handle s) (Returned True) (snd (enter_all (ts @ [t]) s))))
         = replicate (length ts) (Some (Inr False)) @ [Some (Inr True)]"
proof -
  have "map (\<lambda>u. Some (Inr (u = t)) :: (error + bool) option) ts = replicate (length ts) (Some (Inr False))"
    using assms(2) by (induction ts) auto
  then show ?thesis
    using coalesced_connect(3) [OF assms(1), of "ts @ [t]"] by simp
qed

text \<open>
  C1. The claim says that of the callers coalesced into one attempt only the one that
  recorded its caller time last returns \<^verbatim>\<open>True\<close>, and that every earlier one returns
  \<^verbatim>\<open>False\<close>; the docstring of \<^verbatim>\<open>_connect_if_not_connecting\<close> says the same (\<^verbatim>\<open>True\<close> "only
  to the last caller"). The code tells the last caller by comparing readings of
  \<^verbatim>\<open>time_ns()\<close>, which need not differ between two calls. With the readings 5 and 5, one
  task is created and both callers await it, as claimed, but when it succeeds both
  return \<^verbatim>\<open>True\<close>, the earlier one too.
\<close>

theorem equal_caller_times_both_true:
  "fst (enter_all [5, 5] MotionDevice_init) = [Await 0 5, Await 0 5]
   \<and> log (snd (enter_all [5, 5] MotionDevice_init)) = [TaskCreate 0 False]
   \<and> fst (resume_all (fst (enter_all [5, 5] MotionDevice_init))
             (task_finishes 0 (Returned True) (snd (enter_all [5, 5] MotionDevice_init))))
      = [Some (Inr True), Some (Inr True)]"
  by (simp add: connect_if_not_connecting_start_def connect_if_not_connecting_resume_def
        task_finishes_def emit_def Let_def MotionDevice_init_def)

subsection \<open>Disconnecting during a connection attempt\<close>

lemma set_connection_fields:
  "connection_type (set_connection t s) = t"
  "connection_task (set_connection t s) = connection_task s"
  "current_bleak_client (set_connection t s) = current_bleak_client s"
  "disconnect_timer (set_connection t s) = disconnect_timer s"
  "tasks (set_connection t s) = tasks s"
  "set (log s) \<subseteq> set (log (set_connection t s))"
  by (auto simp: set_connection_def emit_def Let_def)

lemma resume_all_cancelled:
  assumes "tasks s h = Cancelled"
    and "connection_type s = DISCONNECTED"
    and "connection_task s = None"
  shows "\<exists>s'. resume_all (map (Await h) ts) s = (map (\<lambda>t. Some (Inr False)) ts, s')
           \<and> connection_type s' = DISCONNECTED \<and> connection_task s' = None"
  using assms
proof (induction ts arbitrary: s)
  case Nil
  then show ?case by simp
next
  case (Cons t ts)
  define s1 where "s1 = (set_connection DISCONNECTED s)\<lparr>connection_task := None\<rparr>"
  have r: "connect_if_not_connecting_resume h t s = (Some (Inr False), s1)"
    using Cons.prems(1) by (simp add: connect_if_not_connecting_resume_def s1_def)
  have "tasks s1 h = Cancelled" "connection_type s1 = DISCONNECTED" "connection_task s1 = None"
    using Cons.prems(1) by (simp_all add: s1_def set_connection_fields)
  from Cons.IH [OF this] obtain s' where
    "resume_all (map (Await h) ts) s1 = (map (\<lambda>t. Some (Inr False)) ts, s')"
    "connection_type s' = DISCONNECTED" "connection_task s' = None"
    by blast
  with r show ?case by simp
qed

lemma disconnect_result:
  assumes "current_bleak_client s = None \<or> transport = None"
  shows "\<exists>s'. disconnect transport s = (Inr (), s')
           \<and> connection_type s' = DISCONNECTED
           \<and> connection_task s' = None
           \<and> current_bleak_client s' = None
           \<and> tasks s' = (case connection_task s of
                           None \<Rightarrow> tasks s
                         | Some h \<Rightarrow> (tasks s)(h := (case tasks s h of Pending \<Rightarrow> Cancelled | st \<Rightarrow> st)))
           \<and> (\<forall>h. connection_task s = Some h \<longrightarrow>
                 TaskCancel h \<in> set (log s')
                 \<and> (\<forall>tm. disconnect_timer s = Some tm \<longrightarrow> TimerCancel tm \<in> set (log s')))"
  using assms
  by (cases "connection_task s"; cases "current_bleak_client s"; cases "disconnect_timer s";
      cases transport)
     (auto simp: disconnect_def set_connection_def cancel_task_def cancel_disconnect_timer_def
        emit_def Let_def split: TimerHandle.splits)

text \<open>
  C9. When the transport's own disconnect does not raise (or there is no client to
  disconnect), \<^verbatim>\<open>disconnect()\<close> returns normally from every state and leaves the
  connection type \<^verbatim>\<open>DISCONNECTED\<close>, with no task and no client recorded; so it is safe on
  a device that is already disconnected. When a connection attempt is in flight, the
  call cancels its task and the disconnect timer that is set, and every caller that
  awaits the task is resumed with \<^verbatim>\<open>False\<close>, not with an exception, after which the
  connection type is still \<^verbatim>\<open>DISCONNECTED\<close> and no task is recorded.
\<close>

theorem disconnect_cancels_attempt:
  assumes "current_bleak_client s = None \<or> transport = None"
  shows "\<exists>s'. disconnect transport s = (Inr (), s')
           \<and> connection_type s' = DISCONNECTED
           \<and> connection_task s' = None
           \<and> current_bleak_client s' = None
           \<and> (\<forall>h. connection_task s = Some h \<and> tasks s h = Pending \<longrightarrow>
                 tasks s' h = Cancelled
                 \<and> TaskCancel h \<in> set (log s')
                 \<and> (\<forall>tm. disconnect_timer s = Some tm \<longrightarrow> TimerCancel tm \<in> set (log s'))
                 \<and> (\<forall>ts. \<exists>s''. resume_all (map (Await h) ts) s'
                                  = (map (\<lambda>t. Some (Inr False)) ts, s'')
                          \<and> connection_type s'' = DISCONNECTED
                          \<and> connection_task s'' = None))"
proof -
  from disconnect_result [OF assms] obtain s' where d:
    "disconnect transport s = (Inr (), s')"
    "connection_type s' = DISCONNECTED"
    "connection_task s' = None"
    "current_bleak_client s' = None"
    "tasks s' = (case connection_task s of
                   None \<Rightarrow> tasks s
                 | Some h \<Rightarrow> (tasks s)(h := (case tasks s h of Pending \<Rightarrow> Cancelled | st \<Rightarrow> st)))"
    "\<forall>h. connection_task s = Some h \<longrightarrow>
         TaskCancel h \<in> set (log s')
         \<and> (\<forall>tm. disconnect_timer s = Some tm \<longrightarrow> TimerCancel tm \<in> set (log s'))"
    by blast
  have "tasks s' h = Cancelled
        \<and> TaskCancel h \<in> set (log s')
        \<and> (\<forall>tm. disconnect_timer s = Some tm \<longrightarrow> TimerCancel tm \<in> set (log s'))
        \<and> (\<forall>ts. \<exists>s''. resume_all (map (Await h) ts) s'
                         = (map (\<lambda>t. Some (Inr False)) ts, s'')
                 \<and> connection_type s'' = DISCONNECTED
                 \<and> connection_task s'' = None)"
    if h: "connection_task s = Some h" "tasks s h = Pending" for h
  proof -
    have c: "tasks s' h = Cancelled" using d(5) h by simp
    from resume_all_cancelled [OF c d(2) d(3)] d(6) h(1) c show ?thesis by blast
  qed
  with d(1-4) show ?thesis by blast
qed

theorem disconnect_cancels_attempt_witness:
  "current_bleak_client
     (MotionDevice_init\<lparr>connection_type := CONNECTING, connection_task := Some 0,
        last_connection_caller_time := Some 20, disconnect_time := Some 5000,
        disconnect_timer := Some (LoopTimer 7), next_handle := 8\<rparr>) = None
   \<and> (\<exists>s'. disconnect None
               (MotionDevice_init\<lparr>connection_type := CONNECTING, connection_task := Some 0,
                  last_connection_caller_time := Some 20, disconnect_time := Some 5000,
                  disconnect_timer := Some (LoopTimer 7), next_handle := 8\<rparr>) = (Inr (), s')
          \<and> connection_type s' = DISCONNECTED
          \<and> connection_task s' = None
          \<and> tasks s' 0 = Cancelled
          \<and> TimerCancel (LoopTimer 7) \<in> set (log s')
          \<and> fst (resume_all [Await 0 10, Await 0 20] s') = [Some (Inr False), Some (Inr False)])"
proof -
  define s0 where "s0 = MotionDevice_init\<lparr>connection_type := CONNECTING, connection_task := Some 0,
        last_connection_caller_time := Some 20, disconnect_time := Some 5000,
        disconnect_timer := Some (LoopTimer 7), next_handle := 8\<rparr>"
  have a: "current_bleak_client s0 = None \<or> (None :: error option) = None"
    by simp
  have b: "connection_task s0 = Some 0 \<and> tasks s0 0 = Pending"
    by (simp add: s0_def MotionDevice_init_def)
  have t: "disconnect_timer s0 = Some (LoopTimer 7)"
    by (simp add: s0_def)
  have cl: "current_bleak_client s0 = None"
    by (simp add: s0_def MotionDevice_init_def)
  from disconnect_cancels_attempt [OF a] obtain s' where d:
    "disconnect None s0 = (Inr (), s')"
    "connection_type s' = DISCONNECTED"
    "connection_task s' = None"
    "\<forall>h. connection_task s0 = Some h \<and> tasks s0 h = Pending \<longrightarrow>
         tasks s' h = Cancelled
         \<and> TaskCancel h \<in> set (log s')
         \<and> (\<forall>tm. disconnect_timer s0 = Some tm \<longrightarrow> TimerCancel tm \<in> set (log s'))
         \<and> (\<forall>ts. \<exists>s''. resume_all (map (Await h) ts) s'
                          = (map (\<lambda>t. Some (Inr False)) ts, s'')
                  \<and> connection_type s'' = DISCONNECTED
                  \<and> connection_task s'' = None)"
    by blast
  from d(4) b have e: "tasks s' 0 = Cancelled"
    "\<forall>tm. disconnect_timer s0 = Some tm \<longrightarrow> TimerCancel tm \<in> set (log s')"
    "\<forall>ts. \<exists>s''. resume_all (map (Await 0) ts) s' = (map (\<lambda>t. Some (Inr False)) ts, s'')
                  \<and> connection_type s'' = DISCONNECTED \<and> connection_task s'' = None"
    by blast+
  from e(2) t have tc: "TimerCancel (LoopTimer 7) \<in> set (log s')" by blast
  from e(3) [rule_format, of "[10, 20]"]
  have r: "fst (resume_all [Await 0 10, Await 0 20] s') = [Some (Inr False), Some (Inr False)]"
    by auto
  from cl d(1-3) e(1) tc r show ?thesis
    unfolding s0_def by blast
qed

end
